theory Spec2Isabelle
  imports Complex_Main "HOL-Library.Log_Nat" "HOL-Library.Char_ord" "HOL-Library.List_Lexorder"
    "HOL-Library.Product_Lexorder"
begin

section \<open>JavaScript numbers on the scoring path\<close>

text \<open>
  A JavaScript \<^verbatim>\<open>number\<close> is an IEEE-754 binary64 value. The scoring function multiplies
  by the literal \<^verbatim>\<open>0.1\<close>, which is not a dyadic fraction, so its results depend on the
  rounding of each operation. A finite double is modelled as the rational it denotes, and
  every arithmetic operation rounds its exact result to the nearest value with a 53-bit
  significand, ties to even (\<open>fl\<close>). Overflow to infinity and subnormal numbers are
  left out: every magnitude that occurs here lies far inside the normal range.
\<close>

definition pow2 :: "int \<Rightarrow> rat" where
  "pow2 k = (if 0 \<le> k then 2 ^ nat k else 1 / 2 ^ nat (- k))"

definition round_half_even :: "rat \<Rightarrow> int" where
  "round_half_even y =
     (let m = \<lfloor>y\<rfloor>; r = y - of_int m
      in if r < 1 / 2 then m else if 1 / 2 < r then m + 1
         else if even m then m else m + 1)"

text \<open>\<open>ilog2 a\<close> is the binary exponent of a positive rational: \<open>2 ^ ilog2 a \<le> a < 2 ^ (ilog2 a + 1)\<close>.\<close>

definition ilog2 :: "rat \<Rightarrow> int" where
  "ilog2 a =
     (let (p, q) = quotient_of a;
          k = bitlen p - bitlen q
      in if pow2 k \<le> a then k else k - 1)"

definition fl :: "rat \<Rightarrow> rat" where
  "fl x =
     (if x = 0 then 0
      else let a = \<bar>x\<bar>;
               e = ilog2 a - 52;
               m = round_half_even (a / pow2 e)
           in sgn x * of_int m * pow2 e)"

definition js_mul :: "rat \<Rightarrow> rat \<Rightarrow> rat" where
  "js_mul x y = fl (x * y)"

definition js_add :: "rat \<Rightarrow> rat \<Rightarrow> rat" where
  "js_add x y = fl (x + y)"

text \<open>The literal \<^verbatim>\<open>0.1\<close>: the double nearest to one tenth.\<close>

definition lit_0_1 :: rat where
  "lit_0_1 = fl (1 / 10)"

text \<open>
  \<^verbatim>\<open>Number(text)\<close> on the decimal text of a \<^verbatim>\<open>BIGINT\<close> column, which the driver
  returns as a string: the nearest double.
\<close>

definition Number_bigint :: "int \<Rightarrow> rat" where
  "Number_bigint v = fl (of_int v)"

text \<open>\<^verbatim>\<open>Number.isInteger\<close> on a finite number.\<close>

definition isInteger :: "rat \<Rightarrow> bool" where
  "isInteger x = (of_int \<lfloor>x\<rfloor> = x)"

section \<open>score.ts\<close>

definition MAX_MULTIPLIER :: rat where
  "MAX_MULTIPLIER = 2"

definition WRONG_PENALTY :: rat where
  "WRONG_PENALTY = - 5"

definition calculateScore :: "rat \<Rightarrow> rat \<Rightarrow> bool \<Rightarrow> rat" where
  "calculateScore difficulty streak correct =
     (let baseScore = js_mul difficulty 10;
          multiplier = min (js_add 1 (js_mul streak lit_0_1)) MAX_MULTIPLIER
      in if \<not> correct then WRONG_PENALTY else js_mul baseScore multiplier)"

text \<open>
  The scoring function as the specification words it, in exact arithmetic:
  \<open>round (d * 10 * min (1 + 0.1 * s) 2.0)\<close> when correct, \<open>-5\<close> otherwise.
\<close>

definition scoringFunction_spec :: "int \<Rightarrow> int \<Rightarrow> bool \<Rightarrow> int" where
  "scoringFunction_spec d s correct =
     (if correct then round (of_int d * 10 * min (1 + (1 / 10) * of_int s) (2 :: rat)) else - 5)"

section \<open>adaptive.ts\<close>

text \<open>
  Difficulty, confidence and streak come from 32-bit integer columns; on such values the
  additions of the source are exact in double arithmetic, \<^verbatim>\<open>Math.trunc\<close> is the identity
  and the \<^verbatim>\<open>NaN\<close> guards of the clamps never fire, so they are integers here.
\<close>

definition MIN_DIFFICULTY :: int where "MIN_DIFFICULTY = 1"
definition MAX_DIFFICULTY :: int where "MAX_DIFFICULTY = 10"
definition CONFIDENCE_UP_THRESHOLD :: int where "CONFIDENCE_UP_THRESHOLD = 2"
definition CONFIDENCE_DOWN_THRESHOLD :: int where "CONFIDENCE_DOWN_THRESHOLD = - 2"
definition MIN_STREAK_FOR_INCREASE :: int where "MIN_STREAK_FOR_INCREASE = 2"

definition clampDifficulty :: "int \<Rightarrow> int" where
  "clampDifficulty v = min MAX_DIFFICULTY (max MIN_DIFFICULTY v)"

definition clampConfidence :: "int \<Rightarrow> int" where
  "clampConfidence v = max (- CONFIDENCE_UP_THRESHOLD) (min CONFIDENCE_UP_THRESHOLD v)"

text \<open>The result pair is \<open>(nextDifficulty, nextConfidence)\<close>.\<close>

definition computeNextDifficulty :: "int \<Rightarrow> bool \<Rightarrow> int \<Rightarrow> int \<Rightarrow> int \<times> int" where
  "computeNextDifficulty currentDifficulty correct confidence streak =
     (let nextConfidence = (if correct then confidence + 1 else confidence - 1);
          nextDifficulty = currentDifficulty;
          (nextDifficulty, nextConfidence) =
            (if nextConfidence \<ge> CONFIDENCE_UP_THRESHOLD \<and> streak \<ge> MIN_STREAK_FOR_INCREASE
             then (nextDifficulty + 1, 0)
             else if nextConfidence \<le> CONFIDENCE_DOWN_THRESHOLD
             then (nextDifficulty - 1, 0)
             else (nextDifficulty, nextConfidence))
      in (clampDifficulty nextDifficulty, clampConfidence nextConfidence))"

section \<open>The durable store (schema.sql)\<close>

text \<open>
  Timestamps are milliseconds since the epoch; a \<^verbatim>\<open>TIMESTAMP\<close> column keeps them to
  the millisecond. All clock readings of one call (\<^verbatim>\<open>Date.now()\<close>, \<^verbatim>\<open>new Date()\<close>,
  SQL \<^verbatim>\<open>NOW()\<close>) are the one instant \<open>now\<close> passed to it, and the session time zone
  is UTC. Identifiers are the UUID texts. Columns that none of the functions below reads
  or writes are left out.
\<close>

type_synonym timestamp = int

record user_state_row =
  us_current_difficulty :: int
  us_streak :: int
  us_max_streak :: int
  us_total_score :: int
  us_confidence :: int
  us_last_question_id :: "string option"
  us_last_answer_at :: "timestamp option"
  us_state_version :: int

record question_row =
  q_difficulty :: int
  q_correct_answer_hash :: string

record answer_log_row =
  log_user_id :: string
  log_question_id :: string
  log_difficulty :: int
  log_answer :: string
  log_correct :: bool
  log_score_delta :: int
  log_streak_at_answer :: int
  log_confidence_after :: int
  log_answered_at :: timestamp

text \<open>
  The two leaderboard tables hold one row \<open>(user_id, value, updated_at)\<close> per user;
  they are lists because ranks count rows.
\<close>

record db =
  user_state :: "string \<rightharpoonup> user_state_row"
  questions :: "string \<rightharpoonup> question_row"
  answer_log :: "answer_log_row list"
  leaderboard_score :: "(string \<times> int \<times> timestamp) list"
  leaderboard_streak :: "(string \<times> int \<times> timestamp) list"

text \<open>\<^verbatim>\<open>INSERT ... ON CONFLICT (user_id) DO UPDATE\<close> on a table keyed by its first column.\<close>

fun upsert :: "'k \<Rightarrow> 'v \<Rightarrow> ('k \<times> 'v) list \<Rightarrow> ('k \<times> 'v) list" where
  "upsert k v [] = [(k, v)]"
| "upsert k v ((k', v') # rows) =
     (if k' = k then (k, v) # rows else (k', v') # upsert k v rows)"

text \<open>\<^verbatim>\<open>SELECT COUNT(*)::int + 1 ... WHERE value > $1\<close>.\<close>

definition rank_above :: "int \<Rightarrow> (string \<times> int \<times> timestamp) list \<Rightarrow> int" where
  "rank_above x rows = int (length (filter (\<lambda>(u, v, t). v > x) rows)) + 1"

text \<open>
  The driver sends a number as its decimal text and the server parses it as the integer
  type of the column: a value with a fractional part is rejected and the query throws.
  The range limits of \<^verbatim>\<open>INT\<close> and \<^verbatim>\<open>BIGINT\<close> are not modelled.
\<close>

definition pg_integer :: "rat \<Rightarrow> int option" where
  "pg_integer x = (if isInteger x then Some \<lfloor>x\<rfloor> else None)"

datatype error =
    MissingRequiredFields
  | InvalidStateVersion
  | RateLimitExceeded
  | UserStateNotFound
  | StateVersionMismatch
  | QuestionNotFound
  | StoreError

section \<open>db.ts\<close>

text \<open>
  A transaction handler returns its outcome together with the store as its queries left
  it. \<open>withTransaction\<close> commits that store when the handler returns and rolls back to
  the store it started from when the handler throws.
\<close>

definition withTransaction :: "(db \<Rightarrow> (error + 'a) \<times> db) \<Rightarrow> db \<Rightarrow> (error + 'a) \<times> db" where
  "withTransaction handler d =
     (case handler d of
        (Inr result, d') \<Rightarrow> (Inr result, d')
      | (Inl err, d') \<Rightarrow> (Inl err, d))"

section \<open>JavaScript dates\<close>

text \<open>
  The driver returns a \<^verbatim>\<open>TIMESTAMP\<close> as a \<^verbatim>\<open>Date\<close> object, and the code keeps instants as
  ISO-8601 texts elsewhere (\<^verbatim>\<open>toISOString\<close>, and \<^verbatim>\<open>JSON.stringify\<close> of a \<^verbatim>\<open>Date\<close>). The two
  differ under \<^verbatim>\<open>Date.parse\<close>: an ISO text parses to its exact millisecond, while a
  \<^verbatim>\<open>Date\<close> object is first converted with \<^verbatim>\<open>toString\<close>, which prints whole seconds only,
  so that its milliseconds are dropped.
\<close>

datatype js_time = DateObject timestamp | IsoString timestamp

fun Date_parse :: "js_time \<Rightarrow> timestamp" where
  "Date_parse (DateObject t) = (t div 1000) * 1000"
| "Date_parse (IsoString t) = t"

text \<open>What \<^verbatim>\<open>JSON.parse (JSON.stringify x)\<close> returns for an instant.\<close>

fun json_time :: "js_time \<Rightarrow> js_time" where
  "json_time (DateObject t) = IsoString t"
| "json_time (IsoString t) = IsoString t"

section \<open>The cache tier (redis.ts)\<close>

record UserState =
  userId :: string
  currentDifficulty :: int
  streak :: int
  maxStreak :: int
  totalScore :: rat
  stateVersion :: int
  confidence :: int
  lastAnswerAt :: "js_time option"
  lastQuestionId :: "string option"

text \<open>A user state after its round trip through JSON, as the cache returns it.\<close>

definition json_UserState :: "UserState \<Rightarrow> UserState" where
  "json_UserState state = state\<lparr>lastAnswerAt := map_option json_time (lastAnswerAt state)\<rparr>"

record SubmitAnswerResponse =
  resp_correct :: bool
  resp_newDifficulty :: int
  resp_newConfidence :: int
  resp_newStreak :: int
  resp_scoreDelta :: rat
  resp_totalScore :: rat
  resp_stateVersion :: int
  resp_leaderboardRankScore :: "int option"
  resp_leaderboardRankStreak :: "int option"
  resp_maxStreak :: "int option"
  resp_answeredAt :: "timestamp option"

record LeaderboardEntry =
  lb_userId :: string
  lb_totalScore :: rat
  lb_maxStreak :: rat
  lb_rank :: int

datatype kind = Score | Streak

datatype set_key = SCORE_SET_KEY | STREAK_SET_KEY

text \<open>
  The Redis keyspace, split by key prefix into typed parts (the prefixes are pairwise
  distinct, so the parts never share a key). A JSON text is identified with the value it
  encodes, up to the form of its instants (\<open>json_UserState\<close>). An expiring entry carries the instant at which it expires. The cached top
  lists are keyed by \<open>(kind, limit)\<close> for the key \<^verbatim>\<open>leaderboard:cache:<kind>:<limit>\<close>.
\<close>

record redis =
  rate :: "string \<rightharpoonup> int \<times> timestamp option"
  idemp :: "string \<rightharpoonup> SubmitAnswerResponse \<times> timestamp"
  user_state_cache :: "string \<rightharpoonup> UserState \<times> timestamp"
  metrics_cache :: "string \<rightharpoonup> string \<times> timestamp"
  score_set :: "(string \<times> rat) list"
  streak_set :: "(string \<times> rat) list"
  top_cache :: "kind \<times> int \<rightharpoonup> LeaderboardEntry list \<times> timestamp"

definition redis_get :: "timestamp \<Rightarrow> ('k \<rightharpoonup> 'v \<times> timestamp) \<Rightarrow> 'k \<Rightarrow> 'v option" where
  "redis_get now m k =
     (case m k of
        None \<Rightarrow> None
      | Some (v, expiry) \<Rightarrow> if now < expiry then Some v else None)"

text \<open>\<^verbatim>\<open>SET key value EX seconds\<close>.\<close>

definition redis_set_ex ::
  "timestamp \<Rightarrow> int \<Rightarrow> 'k \<Rightarrow> 'v \<Rightarrow> ('k \<rightharpoonup> 'v \<times> timestamp) \<Rightarrow> ('k \<rightharpoonup> 'v \<times> timestamp)" where
  "redis_set_ex now seconds k v m = m(k \<mapsto> (v, now + seconds * 1000))"

definition redis_del :: "'k \<Rightarrow> ('k \<rightharpoonup> 'v) \<Rightarrow> ('k \<rightharpoonup> 'v)" where
  "redis_del k m = m(k := None)"

text \<open>\<^verbatim>\<open>INCR\<close> starts a missing or expired counter at 1 and keeps the expiry of a live one.\<close>

definition redis_incr ::
  "timestamp \<Rightarrow> string \<Rightarrow> (string \<rightharpoonup> int \<times> timestamp option)
     \<Rightarrow> int \<times> (string \<rightharpoonup> int \<times> timestamp option)" where
  "redis_incr now k m =
     (case m k of
        None \<Rightarrow> (1, m(k \<mapsto> (1, None)))
      | Some (n, expiry) \<Rightarrow>
          if (case expiry of None \<Rightarrow> True | Some t \<Rightarrow> now < t)
          then (n + 1, m(k \<mapsto> (n + 1, expiry)))
          else (1, m(k \<mapsto> (1, None))))"

definition redis_expire ::
  "timestamp \<Rightarrow> int \<Rightarrow> string \<Rightarrow> (string \<rightharpoonup> int \<times> timestamp option)
     \<Rightarrow> (string \<rightharpoonup> int \<times> timestamp option)" where
  "redis_expire now seconds k m =
     (case m k of
        None \<Rightarrow> m
      | Some (n, expiry) \<Rightarrow> m(k \<mapsto> (n, Some (now + seconds * 1000))))"

text \<open>
  A sorted set is a list of \<open>(member, score)\<close> with distinct members. Redis orders it by
  score and then by member; \<^verbatim>\<open>REV\<close> reads that order backwards. Only the non-negative
  index ranges that the source asks for are modelled.
\<close>

definition zAdd :: "string \<Rightarrow> rat \<Rightarrow> (string \<times> rat) list \<Rightarrow> (string \<times> rat) list" where
  "zAdd member score z = upsert member score z"

definition zScore :: "(string \<times> rat) list \<Rightarrow> string \<Rightarrow> rat option" where
  "zScore z member = map_of z member"

definition zRangeWithScores_REV :: "(string \<times> rat) list \<Rightarrow> int \<Rightarrow> int \<Rightarrow> (string \<times> rat) list" where
  "zRangeWithScores_REV z start stop =
     take (nat (stop + 1 - start)) (drop (nat start) (rev (sort_key (\<lambda>(m, s). (s, m)) z)))"

definition zset :: "redis \<Rightarrow> set_key \<Rightarrow> (string \<times> rat) list" where
  "zset r k = (case k of SCORE_SET_KEY \<Rightarrow> score_set r | STREAK_SET_KEY \<Rightarrow> streak_set r)"

section \<open>idempotency.ts\<close>

definition IDEMP_PREFIX :: string where
  "IDEMP_PREFIX = ''idemp:''"

definition IDEMP_TTL_SECONDS :: int where
  "IDEMP_TTL_SECONDS = 60 * 60 * 24"

definition checkIdempotency :: "timestamp \<Rightarrow> string \<Rightarrow> redis \<Rightarrow> SubmitAnswerResponse option" where
  "checkIdempotency now key r = redis_get now (idemp r) (IDEMP_PREFIX @ key)"

definition storeIdempotency :: "timestamp \<Rightarrow> string \<Rightarrow> SubmitAnswerResponse \<Rightarrow> redis \<Rightarrow> redis" where
  "storeIdempotency now key response r =
     r\<lparr>idemp := redis_set_ex now IDEMP_TTL_SECONDS (IDEMP_PREFIX @ key) response (idemp r)\<rparr>"

section \<open>leaderboard.ts\<close>

definition TOP_CACHE_TTL_SECONDS :: int where
  "TOP_CACHE_TTL_SECONDS = 30"

text \<open>The result is \<open>((leaderboardRankScore, leaderboardRankStreak), store)\<close>.\<close>

definition upsertLeaderboardTx :: "timestamp \<Rightarrow> string \<Rightarrow> int \<Rightarrow> int \<Rightarrow> db \<Rightarrow> (int \<times> int) \<times> db" where
  "upsertLeaderboardTx now uid totalScore' maxStreak' d =
     (let d1 = d\<lparr>leaderboard_score := upsert uid (totalScore', now) (leaderboard_score d)\<rparr>;
          d2 = d1\<lparr>leaderboard_streak := upsert uid (maxStreak', now) (leaderboard_streak d1)\<rparr>;
          rankScore = rank_above totalScore' (leaderboard_score d2);
          rankStreak = rank_above maxStreak' (leaderboard_streak d2)
      in ((rankScore, rankStreak), d2))"

text \<open>\<open>cacheKeyForTop kind\<close> with its default limit of 10.\<close>

definition cacheKeyForTop :: "kind \<Rightarrow> int \<Rightarrow> kind \<times> int" where
  "cacheKeyForTop k limit = (k, limit)"

definition updateLeaderboardCaches :: "string \<Rightarrow> rat \<Rightarrow> rat \<Rightarrow> redis \<Rightarrow> redis" where
  "updateLeaderboardCaches uid totalScore' maxStreak' r =
     (let r1 = r\<lparr>score_set := zAdd uid totalScore' (score_set r)\<rparr>;
          r2 = r1\<lparr>streak_set := zAdd uid maxStreak' (streak_set r1)\<rparr>;
          r3 = r2\<lparr>top_cache := redis_del (cacheKeyForTop Score 10) (top_cache r2)\<rparr>
      in r3\<lparr>top_cache := redis_del (cacheKeyForTop Streak 10) (top_cache r3)\<rparr>)"

text \<open>
  \<open>getTop\<close> never queries the durable store, so the store is not among its arguments.
  \<open>limit\<close> is a finite number.
\<close>

definition getTop ::
  "timestamp \<Rightarrow> kind \<Rightarrow> set_key \<Rightarrow> rat \<Rightarrow> redis \<Rightarrow> LeaderboardEntry list \<times> redis" where
  "getTop now k setKey limit r =
     (let safeLimit = max 1 \<lfloor>limit\<rfloor>;
          cacheKey = cacheKeyForTop k safeLimit
      in case redis_get now (top_cache r) cacheKey of
           Some cached \<Rightarrow> (cached, r)
         | None \<Rightarrow>
             let raw = zRangeWithScores_REV (zset r setKey) 0 (safeLimit - 1);
                 entries =
                   map (\<lambda>(index, (member, sc)).
                          let score = (if k = Score then Some sc
                                       else zScore (zset r SCORE_SET_KEY) member);
                              strk = (if k = Streak then Some sc
                                      else zScore (zset r STREAK_SET_KEY) member)
                          in \<lparr>lb_userId = member,
                              lb_totalScore = (case score of Some v \<Rightarrow> v | None \<Rightarrow> 0),
                              lb_maxStreak = (case strk of Some v \<Rightarrow> v | None \<Rightarrow> 0),
                              lb_rank = int index + 1\<rparr>)
                       (enumerate 0 raw)
             in (entries,
                 r\<lparr>top_cache := redis_set_ex now TOP_CACHE_TTL_SECONDS cacheKey entries (top_cache r)\<rparr>))"

definition getTopByScore :: "timestamp \<Rightarrow> rat \<Rightarrow> redis \<Rightarrow> LeaderboardEntry list \<times> redis" where
  "getTopByScore now limit r = getTop now Score SCORE_SET_KEY limit r"

definition getTopByStreak :: "timestamp \<Rightarrow> rat \<Rightarrow> redis \<Rightarrow> LeaderboardEntry list \<times> redis" where
  "getTopByStreak now limit r = getTop now Streak STREAK_SET_KEY limit r"

text \<open>
  The top list as the specification words its recomputation: the durable rows of the
  dimension, highest value first, cut at the limit.
\<close>

definition durableTop_spec :: "kind \<Rightarrow> int \<Rightarrow> db \<Rightarrow> (string \<times> int) list" where
  "durableTop_spec k limit d =
     take (nat limit)
       (rev (sort_key (\<lambda>(u, v). (v, u))
          (map (\<lambda>(u, v, t). (u, v))
             (case k of Score \<Rightarrow> leaderboard_score d | Streak \<Rightarrow> leaderboard_streak d))))"

section \<open>userState.ts\<close>

definition USER_STATE_PREFIX :: string where
  "USER_STATE_PREFIX = ''user_state:''"

definition TTL_SECONDS :: int where
  "TTL_SECONDS = 60 * 60"

definition STREAK_DECAY_MS :: int where
  "STREAK_DECAY_MS = 5 * 60 * 1000"

definition hydrateState :: "string \<Rightarrow> user_state_row \<Rightarrow> UserState" where
  "hydrateState uid row =
     \<lparr>userId = uid,
      currentDifficulty = us_current_difficulty row,
      streak = us_streak row,
      maxStreak = us_max_streak row,
      totalScore = Number_bigint (us_total_score row),
      stateVersion = us_state_version row,
      confidence = us_confidence row,
      lastAnswerAt = map_option DateObject (us_last_answer_at row),
      lastQuestionId = us_last_question_id row\<rparr>"

text \<open>\<^verbatim>\<open>UPDATE user_state SET streak, confidence, state_version WHERE user_id\<close>, outside any transaction.\<close>

definition update_decayed :: "UserState \<Rightarrow> db \<Rightarrow> db" where
  "update_decayed decayed d =
     (case user_state d (userId decayed) of
        None \<Rightarrow> d
      | Some row \<Rightarrow>
          d\<lparr>user_state := (user_state d)(userId decayed \<mapsto>
               row\<lparr>us_streak := streak decayed,
                   us_confidence := confidence decayed,
                   us_state_version := stateVersion decayed\<rparr>)\<rparr>)"

definition applyDecay ::
  "timestamp \<Rightarrow> UserState \<Rightarrow> string \<Rightarrow> db \<times> redis \<Rightarrow> UserState \<times> db \<times> redis" where
  "applyDecay now state cacheKey s =
     (case s of (d, r) \<Rightarrow>
        (case lastAnswerAt state of
           None \<Rightarrow> (state, d, r)
         | Some lastAnswerAt' \<Rightarrow>
             if now - Date_parse lastAnswerAt' > STREAK_DECAY_MS \<and> streak state > 0
             then let decayed = state\<lparr>streak := streak state div 2,
                                      confidence := max (confidence state - 1) (- 2),
                                      stateVersion := stateVersion state + 1\<rparr>;
                      r' = r\<lparr>user_state_cache :=
                             redis_set_ex now TTL_SECONDS cacheKey (json_UserState decayed)
                               (user_state_cache r)\<rparr>;
                      d' = update_decayed decayed d
                  in (decayed, d', r')
             else (state, d, r)))"

definition getUserState ::
  "timestamp \<Rightarrow> string \<Rightarrow> db \<times> redis \<Rightarrow> UserState option \<times> db \<times> redis" where
  "getUserState now uid s =
     (case s of (d, r) \<Rightarrow>
        (let cacheKey = USER_STATE_PREFIX @ uid
         in case redis_get now (user_state_cache r) cacheKey of
              Some parsed \<Rightarrow>
                (case applyDecay now parsed cacheKey (d, r) of (st, d', r') \<Rightarrow> (Some st, d', r'))
            | None \<Rightarrow>
                (case user_state d uid of
                   None \<Rightarrow> (None, d, r)
                 | Some raw \<Rightarrow>
                     let state = hydrateState uid raw;
                         r1 = r\<lparr>user_state_cache :=
                                redis_set_ex now TTL_SECONDS cacheKey (json_UserState state)
                                  (user_state_cache r)\<rparr>
                     in (case applyDecay now state cacheKey (d, r1) of
                           (st, d', r') \<Rightarrow> (Some st, d', r')))))"

definition updateUserState :: "timestamp \<Rightarrow> string \<Rightarrow> UserState \<Rightarrow> redis \<Rightarrow> redis" where
  "updateUserState now uid state r =
     r\<lparr>user_state_cache :=
         redis_set_ex now TTL_SECONDS (USER_STATE_PREFIX @ uid) (json_UserState state)
           (user_state_cache r)\<rparr>"

section \<open>quiz.ts\<close>

definition INACTIVITY_DECAY_MS :: int where
  "INACTIVITY_DECAY_MS = 5 * 60 * 1000"

definition RATE_LIMIT_PER_MINUTE :: int where
  "RATE_LIMIT_PER_MINUTE = 20"

record SubmitAnswerBody =
  body_userId :: string
  body_questionId :: string
  body_answer :: string
  body_stateVersion :: rat
  body_answerIdempotencyKey :: "string option"

text \<open>
  Lines 85 to 87 of \<open>submitAnswer\<close>: whether the inactivity decay is due. The row's
  \<^verbatim>\<open>last_answer_at\<close> is a \<^verbatim>\<open>Date\<close> object, so \<^verbatim>\<open>Date.parse\<close> reads it to the second, and
  a parsed value of 0 is falsy in the source's tests of \<open>lastAnswerAt\<close>.
\<close>

definition decayDue :: "timestamp \<Rightarrow> user_state_row \<Rightarrow> bool" where
  "decayDue now row =
     (let lastAnswerAt' = map_option (\<lambda>t. Date_parse (DateObject t)) (us_last_answer_at row);
          decayMs = (case lastAnswerAt' of Some t \<Rightarrow> if t \<noteq> 0 then now - t else 0 | None \<Rightarrow> 0)
      in case lastAnswerAt' of
           Some t \<Rightarrow> t \<noteq> 0 \<and> decayMs > INACTIVITY_DECAY_MS
         | None \<Rightarrow> False)"

text \<open>
  Lines 89 to 104: the state read from the locked row, with the decay applied to that
  in-memory copy.
\<close>

definition loadCurrentState :: "timestamp \<Rightarrow> string \<Rightarrow> user_state_row \<Rightarrow> UserState" where
  "loadCurrentState now uid row =
     (let decay = decayDue now row;
          currentState =
            \<lparr>userId = uid,
             currentDifficulty = us_current_difficulty row,
             streak = us_streak row,
             maxStreak = us_max_streak row,
             totalScore = Number_bigint (us_total_score row),
             stateVersion = us_state_version row,
             confidence = us_confidence row,
             lastAnswerAt = map_option DateObject (us_last_answer_at row),
             lastQuestionId = None\<rparr>
      in if decay
         then currentState\<lparr>streak := streak currentState div 2,
                           confidence := max (confidence currentState - 1) (- 2),
                           stateVersion := stateVersion currentState + 1\<rparr>
         else currentState)"

text \<open>
  The handler that \<open>submitAnswer\<close> passes to \<open>withTransaction\<close>. \<open>sha256\<close> stands for
  \<^verbatim>\<open>crypto.createHash("sha256").update(answer).digest("hex")\<close>.
\<close>

definition submitAnswerTx ::
  "(string \<Rightarrow> string) \<Rightarrow> timestamp \<Rightarrow> SubmitAnswerBody \<Rightarrow> db
     \<Rightarrow> (error + SubmitAnswerResponse) \<times> db" where
  "submitAnswerTx sha256 now body d =
     (let uid = body_userId body
      in case user_state d uid of
           None \<Rightarrow> (Inl UserStateNotFound, d)
         | Some row \<Rightarrow>
             let currentState = loadCurrentState now uid row
             in if body_stateVersion body \<noteq> of_int (stateVersion currentState)
                then (Inl StateVersionMismatch, d)
                else case questions d (body_questionId body) of
                  None \<Rightarrow> (Inl QuestionNotFound, d)
                | Some question \<Rightarrow>
                    let incomingHash = sha256 (body_answer body);
                        correct = (incomingHash = q_correct_answer_hash question);
                        newStreak = (if correct then streak currentState + 1 else 0);
                        newMaxStreak = max (maxStreak currentState) newStreak;
                        scoreDelta =
                          calculateScore (of_int (q_difficulty question)) (of_int newStreak) correct;
                        newTotalScore = max 0 (js_add (totalScore currentState) scoreDelta);
                        (nextDifficulty, nextConfidence) =
                          computeNextDifficulty (currentDifficulty currentState) correct
                            (confidence currentState) newStreak;
                        newStateVersion = stateVersion currentState + 1;
                        answeredAt = now
                    in case pg_integer newTotalScore of
                         None \<Rightarrow> (Inl StoreError, d)
                       | Some total_score' \<Rightarrow>
                           let d1 = d\<lparr>user_state := (user_state d)(uid \<mapsto>
                                      row\<lparr>us_streak := newStreak,
                                          us_max_streak := newMaxStreak,
                                          us_total_score := total_score',
                                          us_current_difficulty := nextDifficulty,
                                          us_confidence := nextConfidence,
                                          us_state_version := newStateVersion,
                                          us_last_question_id := Some (body_questionId body),
                                          us_last_answer_at := Some answeredAt\<rparr>)\<rparr>
                           in case pg_integer scoreDelta of
                                None \<Rightarrow> (Inl StoreError, d1)
                              | Some score_delta' \<Rightarrow>
                                  let d2 = d1\<lparr>answer_log := answer_log d1 @
                                             [\<lparr>log_user_id = uid,
                                               log_question_id = body_questionId body,
                                               log_difficulty = q_difficulty question,
                                               log_answer = body_answer body,
                                               log_correct = correct,
                                               log_score_delta = score_delta',
                                               log_streak_at_answer = newStreak,
                                               log_confidence_after = nextConfidence,
                                               log_answered_at = answeredAt\<rparr>]\<rparr>;
                                      ((rankScore, rankStreak), d3) =
                                        upsertLeaderboardTx now uid total_score' newMaxStreak d2
                                  in (Inr \<lparr>resp_correct = correct,
                                           resp_newDifficulty = nextDifficulty,
                                           resp_newConfidence = nextConfidence,
                                           resp_newStreak = newStreak,
                                           resp_scoreDelta = scoreDelta,
                                           resp_totalScore = newTotalScore,
                                           resp_stateVersion = newStateVersion,
                                           resp_leaderboardRankScore = Some rankScore,
                                           resp_leaderboardRankStreak = Some rankStreak,
                                           resp_maxStreak = Some newMaxStreak,
                                           resp_answeredAt = Some answeredAt\<rparr>, d3))"

text \<open>The idempotency lookup of lines 65 to 68; an empty key is falsy.\<close>

definition replayLookup :: "timestamp \<Rightarrow> string option \<Rightarrow> redis \<Rightarrow> SubmitAnswerResponse option" where
  "replayLookup now token r =
     (case token of
        None \<Rightarrow> None
      | Some key \<Rightarrow> if key \<noteq> [] then checkIdempotency now key r else None)"

text \<open>The cache refresh of lines 212 to 229, after the commit.\<close>

definition afterCommit :: "timestamp \<Rightarrow> SubmitAnswerBody \<Rightarrow> SubmitAnswerResponse \<Rightarrow> redis \<Rightarrow> redis" where
  "afterCommit now body result r =
     (let uid = body_userId body;
          cacheState =
            \<lparr>userId = uid,
             currentDifficulty = resp_newDifficulty result,
             streak = resp_newStreak result,
             maxStreak = (case resp_maxStreak result of Some m \<Rightarrow> m | None \<Rightarrow> resp_newStreak result),
             totalScore = resp_totalScore result,
             stateVersion = resp_stateVersion result,
             confidence = resp_newConfidence result,
             lastAnswerAt = map_option IsoString (resp_answeredAt result),
             lastQuestionId = None\<rparr>;
          r1 = updateLeaderboardCaches uid (resp_totalScore result) (of_int (maxStreak cacheState)) r;
          r2 = updateUserState now uid cacheState r1;
          r3 = r2\<lparr>metrics_cache := redis_del (''metrics:'' @ uid) (metrics_cache r2)\<rparr>
      in case body_answerIdempotencyKey body of
           None \<Rightarrow> r3
         | Some key \<Rightarrow> if key \<noteq> [] then storeIdempotency now key result r3 else r3)"

text \<open>The rate limiter of lines 55 to 60: the attempt count and the cache it leaves.\<close>

definition rateLimit :: "timestamp \<Rightarrow> string \<Rightarrow> redis \<Rightarrow> int \<times> redis" where
  "rateLimit now uid r =
     (let rateKey = ''rate:'' @ uid;
          (attempts, rate1) = redis_incr now rateKey (rate r);
          rate2 = (if attempts = 1 then redis_expire now 60 rateKey rate1 else rate1)
      in (attempts, r\<lparr>rate := rate2\<rparr>))"

definition submitAnswer ::
  "(string \<Rightarrow> string) \<Rightarrow> timestamp \<Rightarrow> SubmitAnswerBody \<Rightarrow> db \<times> redis
     \<Rightarrow> (error + SubmitAnswerResponse) \<times> db \<times> redis" where
  "submitAnswer sha256 now body s =
     (case s of (d, r) \<Rightarrow>
        if body_userId body = [] \<or> body_questionId body = [] \<or> body_answer body = []
        then (Inl MissingRequiredFields, d, r)
        else if \<not> isInteger (body_stateVersion body)
        then (Inl InvalidStateVersion, d, r)
        else
          let (attempts, r1) = rateLimit now (body_userId body) r
          in if attempts > RATE_LIMIT_PER_MINUTE
             then (Inl RateLimitExceeded, d, r1)
             else case replayLookup now (body_answerIdempotencyKey body) r1 of
               Some existing \<Rightarrow> (Inr existing, d, r1)
             | None \<Rightarrow>
                 (case withTransaction (submitAnswerTx sha256 now body) d of
                    (Inl err, d') \<Rightarrow> (Inl err, d', r1)
                  | (Inr result, d') \<Rightarrow> (Inr result, d', afterCommit now body result r1)))"

section \<open>Reachable states\<close>

text \<open>The row that onboarding creates (seed.ts, and the column defaults of schema.sql).\<close>

definition onboarding_row :: user_state_row where
  "onboarding_row =
     \<lparr>us_current_difficulty = 1, us_streak = 0, us_max_streak = 0, us_total_score = 0,
      us_confidence = 0, us_last_question_id = None, us_last_answer_at = None,
      us_state_version = 1\<rparr>"

definition redis_empty :: redis where
  "redis_empty =
     \<lparr>rate = Map.empty, idemp = Map.empty, user_state_cache = Map.empty,
      metrics_cache = Map.empty, score_set = [], streak_set = [], top_cache = Map.empty\<rparr>"

definition onboarded :: "db \<Rightarrow> bool" where
  "onboarded d = (\<forall>uid row. user_state d uid = Some row \<longrightarrow> row = onboarding_row)"

text \<open>
  The states that any sequence of answer submissions, state reads (which persist a
  decay) and leaderboard reads reaches from freshly onboarded users and an empty cache.
  Every call may be made at any instant and with any arguments.
\<close>

inductive reachable :: "(string \<Rightarrow> string) \<Rightarrow> db \<times> redis \<Rightarrow> bool" for sha256 where
  reachable_init: "onboarded d \<Longrightarrow> reachable sha256 (d, redis_empty)"
| reachable_submit: "reachable sha256 s \<Longrightarrow> reachable sha256 (snd (submitAnswer sha256 now body s))"
| reachable_read: "reachable sha256 s \<Longrightarrow> reachable sha256 (snd (getUserState now uid s))"
| reachable_top:
    "reachable sha256 s \<Longrightarrow> reachable sha256 (fst s, snd (getTop now k setKey limit (snd s)))"

definition row_ok :: "user_state_row \<Rightarrow> bool" where
  "row_ok row =
     (1 \<le> us_current_difficulty row \<and> us_current_difficulty row \<le> 10
      \<and> - 2 \<le> us_confidence row \<and> us_confidence row \<le> 2
      \<and> 0 \<le> us_total_score row)"

definition db_ok :: "db \<Rightarrow> bool" where
  "db_ok d = (\<forall>uid row. user_state d uid = Some row \<longrightarrow> row_ok row)"

text \<open>The decay of the read path starts from a cached state, so its confidence matters too.\<close>

definition cache_ok :: "redis \<Rightarrow> bool" where
  "cache_ok r =
     (\<forall>key st e. user_state_cache r key = Some (st, e) \<longrightarrow> - 2 \<le> confidence st \<and> confidence st \<le> 2)"

section \<open>Example data\<close>

text \<open>
  A small system on which the theorems below are instantiated: one freshly onboarded
  user, a question of difficulty 1 and one of difficulty 5, and a stand-in digest.
\<close>

definition example_digest :: "string \<Rightarrow> string" where
  "example_digest a = ''#'' @ a"

definition example_db :: db where
  "example_db =
     \<lparr>user_state = [''u1'' \<mapsto> onboarding_row],
      questions = [''q1'' \<mapsto> \<lparr>q_difficulty = 1, q_correct_answer_hash = ''#A''\<rparr>,
                   ''q5'' \<mapsto> \<lparr>q_difficulty = 5, q_correct_answer_hash = ''#B''\<rparr>],
      answer_log = [], leaderboard_score = [], leaderboard_streak = []\<rparr>"

definition example_body :: SubmitAnswerBody where
  "example_body =
     \<lparr>body_userId = ''u1'', body_questionId = ''q1'', body_answer = ''A'',
      body_stateVersion = 1, body_answerIdempotencyKey = Some ''k1''\<rparr>"

definition example_s1 :: "db \<times> redis" where
  "example_s1 = snd (submitAnswer example_digest 1000 example_body (example_db, redis_empty))"

definition example_row1 :: user_state_row where
  "example_row1 =
     \<lparr>us_current_difficulty = 1, us_streak = 1, us_max_streak = 1, us_total_score = 11,
      us_confidence = 1, us_last_question_id = Some ''q1'', us_last_answer_at = Some 1000,
      us_state_version = 2\<rparr>"

definition example_stale :: SubmitAnswerBody where
  "example_stale = example_body\<lparr>body_answerIdempotencyKey := Some ''k2''\<rparr>"

definition example_idle_row :: user_state_row where
  "example_idle_row =
     \<lparr>us_current_difficulty = 3, us_streak = 5, us_max_streak = 5, us_total_score = 120,
      us_confidence = 1, us_last_question_id = Some ''q1'', us_last_answer_at = Some 1000,
      us_state_version = 7\<rparr>"

definition example_idle_db :: db where
  "example_idle_db = example_db\<lparr>user_state := [''u1'' \<mapsto> example_idle_row]\<rparr>"

definition example_idle_body :: SubmitAnswerBody where
  "example_idle_body = example_body\<lparr>body_stateVersion := 7\<rparr>"

definition example_idle_decayed :: user_state_row where
  "example_idle_decayed =
     example_idle_row\<lparr>us_streak := 2, us_confidence := 0, us_state_version := 8\<rparr>"

definition example_wrong :: SubmitAnswerBody where
  "example_wrong = example_body\<lparr>body_answer := ''Z'', body_answerIdempotencyKey := None\<rparr>"

definition example_s2 :: "db \<times> redis" where
  "example_s2 = snd (submitAnswer example_digest 1000 example_wrong (example_db, redis_empty))"

definition example_row2 :: user_state_row where
  "example_row2 =
     \<lparr>us_current_difficulty = 1, us_streak = 0, us_max_streak = 0, us_total_score = 0,
      us_confidence = - 1, us_last_question_id = Some ''q1'', us_last_answer_at = Some 1000,
      us_state_version = 2\<rparr>"

definition example_retry :: SubmitAnswerBody where
  "example_retry = example_body\<lparr>body_answer := ''Z''\<rparr>"

definition example_response :: SubmitAnswerResponse where
  "example_response =
     \<lparr>resp_correct = True, resp_newDifficulty = 1, resp_newConfidence = 1,
      resp_newStreak = 1, resp_scoreDelta = 11, resp_totalScore = 11,
      resp_stateVersion = 2, resp_leaderboardRankScore = Some 1,
      resp_leaderboardRankStreak = Some 1, resp_maxStreak = Some 1,
      resp_answeredAt = Some 1000\<rparr>"

definition example_board :: redis where
  "example_board =
     redis_empty\<lparr>score_set := [(''u1'', 11), (''u2'', 40), (''u3'', 40)],
                 streak_set := [(''u1'', 1), (''u2'', 3)]\<rparr>"

definition example_top :: "LeaderboardEntry list" where
  "example_top =
     [\<lparr>lb_userId = ''u3'', lb_totalScore = 40, lb_maxStreak = 0, lb_rank = 1\<rparr>,
      \<lparr>lb_userId = ''u2'', lb_totalScore = 40, lb_maxStreak = 3, lb_rank = 2\<rparr>]"

text \<open>The cache after twenty attempts within the current window and one stored response.\<close>

definition example_limited :: redis where
  "example_limited =
     redis_empty\<lparr>rate := [''rate:u1'' \<mapsto> (20, Some 61000)],
                 idemp := [''idemp:k1'' \<mapsto> (example_response, 86401000)]\<rparr>"

definition example_unknown :: SubmitAnswerBody where
  "example_unknown =
     \<lparr>body_userId = ''nobody'', body_questionId = ''nothing'', body_answer = ''Z'',
      body_stateVersion = 99, body_answerIdempotencyKey = Some ''k1''\<rparr>"

text \<open>The cache after nineteen attempts within the current window.\<close>

definition example_busy :: redis where
  "example_busy = redis_empty\<lparr>rate := [''rate:u1'' \<mapsto> (19, Some 61000)]\<rparr>"

text \<open>A user whose last answer, at 1.999 s, lies less than five minutes before 301.5 s.\<close>

definition example_subsecond_row :: user_state_row where
  "example_subsecond_row = example_idle_row\<lparr>us_last_answer_at := Some 1999\<rparr>"

definition example_subsecond_db :: db where
  "example_subsecond_db = example_db\<lparr>user_state := [''u1'' \<mapsto> example_subsecond_row]\<rparr>"

section \<open>The scoring function\<close>

text \<open>
  C3. The specification asks for \<open>round (d * 10 * min (1 + 0.1 * s) 2.0)\<close> on a correct
  answer. \<open>calculateScore\<close> returns the floating-point product without rounding it:
  for difficulty 5 and streak 1 it yields \<open>55 + 2 ^ -47\<close> (printed as 55.00000000000001),
  where the specified value is 55.
\<close>

theorem calculateScore_not_rounded:
  "calculateScore 5 1 True = 55 + 1 / 2 ^ 47 \<and> scoringFunction_spec 5 1 True = 55
    \<and> calculateScore 5 1 True \<noteq> of_int (scoringFunction_spec 5 1 True)"
proof -
  have a: "calculateScore 5 1 True = 55 + 1 / 2 ^ 47"
    by code_simp
  have b: "scoringFunction_spec 5 1 True = 55"
    by code_simp
  have c: "(55 :: rat) + 1 / 2 ^ 47 \<noteq> 55"
    by simp
  show ?thesis
    using a b c by simp
qed

section \<open>The adaptive difficulty machine\<close>

text \<open>
  C4. With \<open>c' = confidence + 1\<close> on a correct answer and \<open>confidence - 1\<close> otherwise:
  if \<open>c' \<ge> 2\<close> and the post-answer streak is at least 2 the difficulty goes up by one and
  the confidence is reset to 0; else if \<open>c' \<le> -2\<close> the difficulty goes down by one and the
  confidence is reset to 0; otherwise the difficulty stays and the confidence is \<open>c'\<close>.
  The returned difficulty is clamped to [1,10] and the returned confidence to [-2,2].
\<close>

theorem computeNextDifficulty_transition:
  fixes d c s :: int and correct :: bool
  defines "c' \<equiv> (if correct then c + 1 else c - 1)"
  shows "(c' \<ge> 2 \<and> s \<ge> 2 \<longrightarrow>
            computeNextDifficulty d correct c s = (min 10 (max 1 (d + 1)), 0))
       \<and> (\<not> (c' \<ge> 2 \<and> s \<ge> 2) \<and> c' \<le> - 2 \<longrightarrow>
            computeNextDifficulty d correct c s = (min 10 (max 1 (d - 1)), 0))
       \<and> (\<not> (c' \<ge> 2 \<and> s \<ge> 2) \<and> \<not> c' \<le> - 2 \<longrightarrow>
            computeNextDifficulty d correct c s = (min 10 (max 1 d), max (- 2) (min 2 c')))
       \<and> 1 \<le> fst (computeNextDifficulty d correct c s)
       \<and> fst (computeNextDifficulty d correct c s) \<le> 10
       \<and> - 2 \<le> snd (computeNextDifficulty d correct c s)
       \<and> snd (computeNextDifficulty d correct c s) \<le> 2"
  unfolding c'_def computeNextDifficulty_def clampDifficulty_def clampConfidence_def
    MIN_DIFFICULTY_def MAX_DIFFICULTY_def CONFIDENCE_UP_THRESHOLD_def
    CONFIDENCE_DOWN_THRESHOLD_def MIN_STREAK_FOR_INCREASE_def Let_def
  by (simp split: if_splits)

theorem computeNextDifficulty_transition_witness:
  "computeNextDifficulty 3 True 1 2 = (4, 0)
   \<and> computeNextDifficulty 3 False (- 1) 0 = (2, 0)
   \<and> computeNextDifficulty 3 True 0 1 = (3, 1)
   \<and> computeNextDifficulty 10 True 1 5 = (10, 0)
   \<and> computeNextDifficulty 3 True 5 1 = (3, 2)"
  using computeNextDifficulty_transition [of True 1 2 3]
    computeNextDifficulty_transition [of False "- 1" 0 3]
    computeNextDifficulty_transition [of True 0 1 3]
    computeNextDifficulty_transition [of True 1 5 10]
    computeNextDifficulty_transition [of True 5 1 3]
  by simp

section \<open>The transaction and its outcomes\<close>


lemma loadCurrentState_simps:
  "stateVersion (loadCurrentState now uid row) = us_state_version row + (if decayDue now row then 1 else 0)"
  "streak (loadCurrentState now uid row) = (if decayDue now row then us_streak row div 2 else us_streak row)"
  "confidence (loadCurrentState now uid row) =
     (if decayDue now row then max (us_confidence row - 1) (- 2) else us_confidence row)"
  "currentDifficulty (loadCurrentState now uid row) = us_current_difficulty row"
  "maxStreak (loadCurrentState now uid row) = us_max_streak row"
  "totalScore (loadCurrentState now uid row) = Number_bigint (us_total_score row)"
  by (simp_all add: loadCurrentState_def Let_def)

lemma submitAnswerTx_success:
  assumes row: "user_state d (body_userId body) = Some row"
    and cs: "cs = loadCurrentState now (body_userId body) row"
    and ver: "body_stateVersion body = of_int (stateVersion cs)"
    and q: "questions d (body_questionId body) = Some question"
    and c: "correct = (H (body_answer body) = q_correct_answer_hash question)"
    and ns: "newStreak = (if correct then streak cs + 1 else 0)"
    and sd: "scoreDelta = calculateScore (of_int (q_difficulty question)) (of_int newStreak) correct"
    and nt: "newTotalScore = max 0 (js_add (totalScore cs) scoreDelta)"
    and nd: "nxt = computeNextDifficulty (currentDifficulty cs) correct (confidence cs) newStreak"
    and t: "pg_integer newTotalScore = Some total_score'"
    and s: "pg_integer scoreDelta = Some score_delta'"
  shows "submitAnswerTx H now body d =
     (Inr \<lparr>resp_correct = correct,
           resp_newDifficulty = fst nxt,
           resp_newConfidence = snd nxt,
           resp_newStreak = newStreak,
           resp_scoreDelta = scoreDelta,
           resp_totalScore = newTotalScore,
           resp_stateVersion = stateVersion cs + 1,
           resp_leaderboardRankScore = Some (rank_above total_score'
              (upsert (body_userId body) (total_score', now) (leaderboard_score d))),
           resp_leaderboardRankStreak = Some (rank_above (max (maxStreak cs) newStreak)
              (upsert (body_userId body) (max (maxStreak cs) newStreak, now) (leaderboard_streak d))),
           resp_maxStreak = Some (max (maxStreak cs) newStreak),
           resp_answeredAt = Some now\<rparr>,
      d\<lparr>user_state := (user_state d)(body_userId body \<mapsto>
           row\<lparr>us_streak := newStreak,
               us_max_streak := max (maxStreak cs) newStreak,
               us_total_score := total_score',
               us_current_difficulty := fst nxt,
               us_confidence := snd nxt,
               us_state_version := stateVersion cs + 1,
               us_last_question_id := Some (body_questionId body),
               us_last_answer_at := Some now\<rparr>),
        answer_log := answer_log d @
         [\<lparr>log_user_id = body_userId body,
           log_question_id = body_questionId body,
           log_difficulty = q_difficulty question,
           log_answer = body_answer body,
           log_correct = correct,
           log_score_delta = score_delta',
           log_streak_at_answer = newStreak,
           log_confidence_after = snd nxt,
           log_answered_at = now\<rparr>],
        leaderboard_score := upsert (body_userId body) (total_score', now) (leaderboard_score d),
        leaderboard_streak := upsert (body_userId body) (max (maxStreak cs) newStreak, now) (leaderboard_streak d)\<rparr>)"
  unfolding submitAnswerTx_def upsertLeaderboardTx_def
  using row ver q t s
  by (simp add: Let_def case_prod_beta cs[symmetric] c[symmetric] ns[symmetric] sd[symmetric] nt[symmetric] nd[symmetric])


lemma submitAnswerTx_no_user:
  "user_state d (body_userId body) = None \<Longrightarrow>
     submitAnswerTx H now body d = (Inl UserStateNotFound, d)"
  by (simp add: submitAnswerTx_def)

lemma submitAnswerTx_mismatch:
  assumes "user_state d (body_userId body) = Some row"
    and "body_stateVersion body \<noteq> of_int (stateVersion (loadCurrentState now (body_userId body) row))"
  shows "submitAnswerTx H now body d = (Inl StateVersionMismatch, d)"
  using assms by (simp add: submitAnswerTx_def Let_def)

lemma submitAnswerTx_no_question:
  assumes "user_state d (body_userId body) = Some row"
    and "body_stateVersion body = of_int (stateVersion (loadCurrentState now (body_userId body) row))"
    and "questions d (body_questionId body) = None"
  shows "submitAnswerTx H now body d = (Inl QuestionNotFound, d)"
  using assms by (simp add: submitAnswerTx_def Let_def)

lemma submitAnswerTx_bad_total:
  assumes row: "user_state d (body_userId body) = Some row"
    and cs: "cs = loadCurrentState now (body_userId body) row"
    and ver: "body_stateVersion body = of_int (stateVersion cs)"
    and q: "questions d (body_questionId body) = Some question"
    and c: "correct = (H (body_answer body) = q_correct_answer_hash question)"
    and ns: "newStreak = (if correct then streak cs + 1 else 0)"
    and sd: "scoreDelta = calculateScore (of_int (q_difficulty question)) (of_int newStreak) correct"
    and t: "pg_integer (max 0 (js_add (totalScore cs) scoreDelta)) = None"
  shows "fst (submitAnswerTx H now body d) = Inl StoreError"
  unfolding submitAnswerTx_def
  using row ver q t
  by (simp add: Let_def case_prod_beta cs[symmetric] c[symmetric] ns[symmetric] sd[symmetric])

lemma submitAnswerTx_bad_delta:
  assumes row: "user_state d (body_userId body) = Some row"
    and cs: "cs = loadCurrentState now (body_userId body) row"
    and ver: "body_stateVersion body = of_int (stateVersion cs)"
    and q: "questions d (body_questionId body) = Some question"
    and c: "correct = (H (body_answer body) = q_correct_answer_hash question)"
    and ns: "newStreak = (if correct then streak cs + 1 else 0)"
    and sd: "scoreDelta = calculateScore (of_int (q_difficulty question)) (of_int newStreak) correct"
    and t: "pg_integer (max 0 (js_add (totalScore cs) scoreDelta)) = Some t"
    and s: "pg_integer scoreDelta = None"
  shows "fst (submitAnswerTx H now body d) = Inl StoreError"
  unfolding submitAnswerTx_def
  using row ver q t s
  by (simp add: Let_def case_prod_beta cs[symmetric] c[symmetric] ns[symmetric] sd[symmetric])

lemma submitAnswerTx_Inr_D:
  assumes ok: "fst (submitAnswerTx H now body d) = Inr resp"
  obtains row question total_score' score_delta' where
    "user_state d (body_userId body) = Some row"
    "body_stateVersion body = of_int (stateVersion (loadCurrentState now (body_userId body) row))"
    "questions d (body_questionId body) = Some question"
    "pg_integer (max 0 (js_add (totalScore (loadCurrentState now (body_userId body) row))
        (calculateScore (of_int (q_difficulty question))
          (of_int (if H (body_answer body) = q_correct_answer_hash question
                   then streak (loadCurrentState now (body_userId body) row) + 1 else 0))
          (H (body_answer body) = q_correct_answer_hash question)))) = Some total_score'"
    "pg_integer (calculateScore (of_int (q_difficulty question))
          (of_int (if H (body_answer body) = q_correct_answer_hash question
                   then streak (loadCurrentState now (body_userId body) row) + 1 else 0))
          (H (body_answer body) = q_correct_answer_hash question)) = Some score_delta'"
proof -
  obtain row where row: "user_state d (body_userId body) = Some row"
    using ok submitAnswerTx_no_user [of d body H now]
    by (cases "user_state d (body_userId body)") auto
  define cs where "cs = loadCurrentState now (body_userId body) row"
  have ver: "body_stateVersion body = of_int (stateVersion cs)"
    using ok submitAnswerTx_mismatch [OF row, of now H] unfolding cs_def by fastforce
  obtain question where q: "questions d (body_questionId body) = Some question"
    using ok submitAnswerTx_no_question [OF row ver [unfolded cs_def], of H]
    by (cases "questions d (body_questionId body)") auto
  define correct where "correct = (H (body_answer body) = q_correct_answer_hash question)"
  define newStreak where "newStreak = (if correct then streak cs + 1 else 0)"
  define scoreDelta where
    "scoreDelta = calculateScore (of_int (q_difficulty question)) (of_int newStreak) correct"
  obtain t where t: "pg_integer (max 0 (js_add (totalScore cs) scoreDelta)) = Some t"
    using ok submitAnswerTx_bad_total [where H = H, OF row cs_def ver q correct_def newStreak_def scoreDelta_def]
    by (cases "pg_integer (max 0 (js_add (totalScore cs) scoreDelta))") auto
  obtain s where s: "pg_integer scoreDelta = Some s"
    using ok submitAnswerTx_bad_delta [where H = H, OF row cs_def ver q correct_def newStreak_def scoreDelta_def t]
    by (cases "pg_integer scoreDelta") auto
  show thesis
    using that [OF row ver [unfolded cs_def] q] t s
    unfolding scoreDelta_def newStreak_def correct_def cs_def by blast
qed


lemma rateLimit_fields:
  "idemp (snd (rateLimit now uid r)) = idemp r"
  "user_state_cache (snd (rateLimit now uid r)) = user_state_cache r"
  "metrics_cache (snd (rateLimit now uid r)) = metrics_cache r"
  "score_set (snd (rateLimit now uid r)) = score_set r"
  "streak_set (snd (rateLimit now uid r)) = streak_set r"
  "top_cache (snd (rateLimit now uid r)) = top_cache r"
  by (simp_all add: rateLimit_def Let_def case_prod_beta)

lemma replayLookup_rateLimit:
  "replayLookup now' token (snd (rateLimit now uid r)) = replayLookup now' token r"
  by (simp add: replayLookup_def checkIdempotency_def rateLimit_fields split: option.splits)

lemma submitAnswer_missing:
  "body_userId body = [] \<or> body_questionId body = [] \<or> body_answer body = [] \<Longrightarrow>
     submitAnswer H now body (d, r) = (Inl MissingRequiredFields, d, r)"
  by (simp add: submitAnswer_def)

lemma submitAnswer_invalid:
  "\<not> (body_userId body = [] \<or> body_questionId body = [] \<or> body_answer body = []) \<Longrightarrow>
   \<not> isInteger (body_stateVersion body) \<Longrightarrow>
     submitAnswer H now body (d, r) = (Inl InvalidStateVersion, d, r)"
  by (simp add: submitAnswer_def)

lemma submitAnswer_admitted:
  assumes "\<not> (body_userId body = [] \<or> body_questionId body = [] \<or> body_answer body = [])"
    and "isInteger (body_stateVersion body)"
  shows "submitAnswer H now body (d, r) =
     (let r1 = snd (rateLimit now (body_userId body) r)
      in if fst (rateLimit now (body_userId body) r) > RATE_LIMIT_PER_MINUTE
         then (Inl RateLimitExceeded, d, r1)
         else case replayLookup now (body_answerIdempotencyKey body) r of
           Some existing \<Rightarrow> (Inr existing, d, r1)
         | None \<Rightarrow>
             (case fst (submitAnswerTx H now body d) of
                Inl err \<Rightarrow> (Inl err, d, r1)
              | Inr result \<Rightarrow>
                  (Inr result, snd (submitAnswerTx H now body d), afterCommit now body result r1)))"
proof -
  have wt: "withTransaction (submitAnswerTx H now body) d =
      (case fst (submitAnswerTx H now body d) of
         Inl err \<Rightarrow> (Inl err, d)
       | Inr result \<Rightarrow> (Inr result, snd (submitAnswerTx H now body d)))"
    by (cases "submitAnswerTx H now body d") (auto simp: withTransaction_def split: sum.splits)
  show ?thesis
    using assms
    by (simp add: submitAnswer_def Let_def case_prod_beta wt replayLookup_rateLimit
        split: option.splits sum.splits)
qed

lemma stateVersion_loadCurrentState:
  "stateVersion (loadCurrentState now uid row) =
     us_state_version row + (if decayDue now row then 1 else 0)"
  by (simp add: loadCurrentState_def Let_def)

lemma submitAnswer_db_cases:
  "fst (snd (submitAnswer H now body (d, r))) = d
   \<or> (\<exists>resp. fst (submitAnswerTx H now body d) = Inr resp
        \<and> replayLookup now (body_answerIdempotencyKey body) r = None
        \<and> snd (submitAnswer H now body (d, r)) =
            (snd (submitAnswerTx H now body d),
             afterCommit now body resp (snd (rateLimit now (body_userId body) r))))"
proof (cases "body_userId body = [] \<or> body_questionId body = [] \<or> body_answer body = []")
  case True
  then show ?thesis by (simp add: submitAnswer_missing)
next
  case valid: False
  show ?thesis
  proof (cases "isInteger (body_stateVersion body)")
    case False
    with valid show ?thesis by (simp add: submitAnswer_invalid)
  next
    case True
    show ?thesis
      unfolding submitAnswer_admitted [OF valid True]
      by (simp add: Let_def split: option.splits sum.splits)
  qed
qed

lemma submitAnswer_tx_failure:
  assumes "fst (submitAnswerTx H now body d) = Inl e"
  shows "fst (snd (submitAnswer H now body (d, r))) = d"
  using submitAnswer_db_cases [of H now body d r] assms by auto

lemma submitAnswer_commit_D:
  assumes ok: "fst (submitAnswer H now body (d, r)) = Inr resp"
    and fresh: "replayLookup now (body_answerIdempotencyKey body) r = None"
  shows "fst (submitAnswerTx H now body d) = Inr resp"
    and "snd (submitAnswer H now body (d, r)) =
           (snd (submitAnswerTx H now body d),
            afterCommit now body resp (snd (rateLimit now (body_userId body) r)))"
    and "fst (rateLimit now (body_userId body) r) \<le> RATE_LIMIT_PER_MINUTE"
    and "body_userId body \<noteq> [] \<and> body_questionId body \<noteq> [] \<and> body_answer body \<noteq> []"
    and "isInteger (body_stateVersion body)"
proof -
  have valid: "\<not> (body_userId body = [] \<or> body_questionId body = [] \<or> body_answer body = [])"
    using ok submitAnswer_missing [of body H now d r] by auto
  have int: "isInteger (body_stateVersion body)"
  proof (rule ccontr)
    assume "\<not> isInteger (body_stateVersion body)"
    from submitAnswer_invalid [OF valid this, of H now d r] ok show False by simp
  qed
  show "fst (submitAnswerTx H now body d) = Inr resp"
    and "snd (submitAnswer H now body (d, r)) =
           (snd (submitAnswerTx H now body d),
            afterCommit now body resp (snd (rateLimit now (body_userId body) r)))"
    and "fst (rateLimit now (body_userId body) r) \<le> RATE_LIMIT_PER_MINUTE"
    using ok fresh unfolding submitAnswer_admitted [OF valid int]
    by (auto simp: Let_def split: if_splits sum.splits)
  show "body_userId body \<noteq> [] \<and> body_questionId body \<noteq> [] \<and> body_answer body \<noteq> []"
    using valid by simp
  show "isInteger (body_stateVersion body)"
    by (rule int)
qed

section \<open>Version conflicts\<close>

text \<open>
  C2, as the claim states it, fails. After the first submission has committed, the durable
  version of the user is 2. A retry that carries the stale version 1 and the token of the
  first submission does not fail with a version conflict: it returns the stored response.
\<close>

theorem version_conflict_replay_counterexample:
  "user_state (fst example_s1) (body_userId example_retry) = Some example_row1
   \<and> body_stateVersion example_retry \<noteq>
        of_int (us_state_version example_row1 + (if decayDue 2000 example_row1 then 1 else 0))
   \<and> fst (submitAnswer example_digest 2000 example_retry example_s1) = Inr example_response"
  by code_simp

text \<open>
  C2, amended. Let the user's durable row exist and let the submitted \<open>stateVersion\<close>
  differ from the row's version, bumped by one when the inactivity decay is due. Then the
  transaction fails with the version-mismatch error and is rolled back, and \<open>submitAnswer\<close>
  leaves the durable store (user state, answer log and both leaderboard tables) exactly as
  it was. \<open>submitAnswer\<close> itself fails with the version mismatch when the submission gets
  as far as the transaction: its required fields are present, its version is an integer,
  the rate limiter admits it and no stored response is replayed for its token.
\<close>

theorem submitAnswer_version_conflict:
  assumes row: "user_state d (body_userId body) = Some row"
    and mismatch: "body_stateVersion body \<noteq>
        of_int (us_state_version row + (if decayDue now row then 1 else 0))"
  shows "withTransaction (submitAnswerTx H now body) d = (Inl StateVersionMismatch, d)
       \<and> fst (snd (submitAnswer H now body (d, r))) = d
       \<and> (body_userId body \<noteq> [] \<and> body_questionId body \<noteq> [] \<and> body_answer body \<noteq> []
            \<and> isInteger (body_stateVersion body)
            \<and> fst (rateLimit now (body_userId body) r) \<le> RATE_LIMIT_PER_MINUTE
            \<and> replayLookup now (body_answerIdempotencyKey body) r = None
          \<longrightarrow> fst (submitAnswer H now body (d, r)) = Inl StateVersionMismatch)"
proof -
  have tx: "submitAnswerTx H now body d = (Inl StateVersionMismatch, d)"
    using submitAnswerTx_mismatch [OF row] mismatch
    by (simp add: stateVersion_loadCurrentState)
  have a: "withTransaction (submitAnswerTx H now body) d = (Inl StateVersionMismatch, d)"
    using tx by (simp add: withTransaction_def)
  have b: "fst (snd (submitAnswer H now body (d, r))) = d"
    using submitAnswer_tx_failure [of H now body d] tx by simp
  have c: "fst (submitAnswer H now body (d, r)) = Inl StateVersionMismatch"
    if "body_userId body \<noteq> []" "body_questionId body \<noteq> []" "body_answer body \<noteq> []"
      "isInteger (body_stateVersion body)"
      "fst (rateLimit now (body_userId body) r) \<le> RATE_LIMIT_PER_MINUTE"
      "replayLookup now (body_answerIdempotencyKey body) r = None"
  proof -
    have "\<not> (body_userId body = [] \<or> body_questionId body = [] \<or> body_answer body = [])"
      using that by simp
    from submitAnswer_admitted [OF this that(4), of H now d r] that(5,6) tx
    show ?thesis by (simp add: Let_def)
  qed
  from a b c show ?thesis by blast
qed

theorem submitAnswer_version_conflict_witness:
  "user_state (fst example_s1) (body_userId example_stale) = Some example_row1
   \<and> body_stateVersion example_stale \<noteq>
        of_int (us_state_version example_row1 + (if decayDue 2000 example_row1 then 1 else 0))
   \<and> fst (submitAnswer example_digest 2000 example_stale example_s1) = Inl StateVersionMismatch
   \<and> fst (snd (submitAnswer example_digest 2000 example_stale example_s1)) = fst example_s1
   \<and> decayDue 301500 example_subsecond_row
   \<and> fst (submitAnswer example_digest 301500 example_idle_body (example_subsecond_db, redis_empty))
        = Inl StateVersionMismatch
   \<and> fst (snd (submitAnswer example_digest 301500 example_idle_body
        (example_subsecond_db, redis_empty))) = example_subsecond_db"
proof -
  have h1: "user_state (fst example_s1) (body_userId example_stale) = Some example_row1"
    by code_simp
  have h2: "body_stateVersion example_stale \<noteq>
        of_int (us_state_version example_row1 + (if decayDue 2000 example_row1 then 1 else 0))"
    by code_simp
  have h3: "body_userId example_stale \<noteq> [] \<and> body_questionId example_stale \<noteq> []
      \<and> body_answer example_stale \<noteq> [] \<and> isInteger (body_stateVersion example_stale)
      \<and> fst (rateLimit 2000 (body_userId example_stale) (snd example_s1)) \<le> RATE_LIMIT_PER_MINUTE
      \<and> replayLookup 2000 (body_answerIdempotencyKey example_stale) (snd example_s1) = None"
    by code_simp
  have first: "fst (submitAnswer example_digest 2000 example_stale example_s1) = Inl StateVersionMismatch
      \<and> fst (snd (submitAnswer example_digest 2000 example_stale example_s1)) = fst example_s1"
    using submitAnswer_version_conflict [OF h1 h2, of example_digest "snd example_s1"] h3
    by simp
  have g1: "user_state example_subsecond_db (body_userId example_idle_body) = Some example_subsecond_row"
    by code_simp
  have due: "decayDue 301500 example_subsecond_row"
    by code_simp
  have g2: "body_stateVersion example_idle_body \<noteq>
        of_int (us_state_version example_subsecond_row
                 + (if decayDue 301500 example_subsecond_row then 1 else 0))"
    by code_simp
  have g3: "body_userId example_idle_body \<noteq> [] \<and> body_questionId example_idle_body \<noteq> []
      \<and> body_answer example_idle_body \<noteq> [] \<and> isInteger (body_stateVersion example_idle_body)
      \<and> fst (rateLimit 301500 (body_userId example_idle_body) redis_empty) \<le> RATE_LIMIT_PER_MINUTE
      \<and> replayLookup 301500 (body_answerIdempotencyKey example_idle_body) redis_empty = None"
    by code_simp
  have second: "fst (submitAnswer example_digest 301500 example_idle_body
        (example_subsecond_db, redis_empty)) = Inl StateVersionMismatch
      \<and> fst (snd (submitAnswer example_digest 301500 example_idle_body
        (example_subsecond_db, redis_empty))) = example_subsecond_db"
    using submitAnswer_version_conflict [OF g1 g2, of example_digest redis_empty] g3
    by simp
  show ?thesis
    using h1 h2 first due second by blast
qed

section \<open>Decay and a failed version validation\<close>

text \<open>
  C1, as the claim states it, fails. A user with streak 5, confidence 1 and version 7 last
  answered six minutes ago and submits with version 7. The decay is due, the validation
  fails against the bumped version 8, and the durable row still holds streak 5,
  confidence 1 and version 7: it is not the decayed row.
\<close>

theorem decay_persisted_counterexample:
  "decayDue 361000 example_idle_row
   \<and> fst (submitAnswer example_digest 361000 example_idle_body (example_idle_db, redis_empty))
       = Inl StateVersionMismatch
   \<and> user_state (fst (snd (submitAnswer example_digest 361000 example_idle_body
         (example_idle_db, redis_empty)))) ''u1'' = Some example_idle_row
   \<and> example_idle_row \<noteq> example_idle_decayed
   \<and> us_state_version example_idle_row = 7"
  by code_simp

text \<open>
  C1, amended. When the decay is due and the submitted version differs from the bumped
  version, the decay has been applied only to the in-memory copy of the state: the handler
  fails the validation before its first write, and after \<open>submitAnswer\<close> the durable row of
  the user is the row as it was, with its streak, confidence and version.
\<close>

theorem decay_discarded_on_version_conflict:
  assumes row: "user_state d (body_userId body) = Some row"
    and due: "decayDue now row"
    and mismatch: "body_stateVersion body \<noteq> of_int (us_state_version row + 1)"
  shows "streak (loadCurrentState now (body_userId body) row) = us_streak row div 2
       \<and> confidence (loadCurrentState now (body_userId body) row) = max (us_confidence row - 1) (- 2)
       \<and> stateVersion (loadCurrentState now (body_userId body) row) = us_state_version row + 1
       \<and> submitAnswerTx H now body d = (Inl StateVersionMismatch, d)
       \<and> user_state (fst (snd (submitAnswer H now body (d, r)))) (body_userId body) = Some row"
proof -
  have mem: "streak (loadCurrentState now (body_userId body) row) = us_streak row div 2"
    "confidence (loadCurrentState now (body_userId body) row) = max (us_confidence row - 1) (- 2)"
    "stateVersion (loadCurrentState now (body_userId body) row) = us_state_version row + 1"
    using due by (simp_all add: loadCurrentState_simps)
  have tx: "submitAnswerTx H now body d = (Inl StateVersionMismatch, d)"
    using submitAnswerTx_mismatch [OF row] mismatch mem(3) by simp
  have "fst (snd (submitAnswer H now body (d, r))) = d"
    using submitAnswer_tx_failure [of H now body d] tx by simp
  with row mem tx show ?thesis by simp
qed

theorem decay_discarded_on_version_conflict_witness:
  "user_state example_idle_db (body_userId example_idle_body) = Some example_idle_row
   \<and> decayDue 361000 example_idle_row
   \<and> body_stateVersion example_idle_body \<noteq> of_int (us_state_version example_idle_row + 1)
   \<and> stateVersion (loadCurrentState 361000 ''u1'' example_idle_row) = 8
   \<and> submitAnswerTx example_digest 361000 example_idle_body example_idle_db
        = (Inl StateVersionMismatch, example_idle_db)
   \<and> user_state (fst (snd (submitAnswer example_digest 361000 example_idle_body
         (example_idle_db, redis_empty)))) ''u1'' = Some example_idle_row"
proof -
  have h1: "user_state example_idle_db (body_userId example_idle_body) = Some example_idle_row"
    by code_simp
  have h2: "decayDue 361000 example_idle_row"
    by code_simp
  have h3: "body_stateVersion example_idle_body \<noteq> of_int (us_state_version example_idle_row + 1)"
    by code_simp
  have h4: "body_userId example_idle_body = ''u1''" "us_state_version example_idle_row = 7"
    by code_simp+
  show ?thesis
    using decay_discarded_on_version_conflict [OF h1 h2 h3, of example_digest redis_empty] h1 h2 h3 h4
    by simp
qed

section \<open>Inactivity decay during answer submission\<close>

text \<open>
  C5. The claim requires \<open>streak > 0\<close> for the decay of an answer submission, as
  \<open>applyDecay\<close> of the read path does. \<open>submitAnswer\<close> has no such guard. After one wrong
  answer at instant 1000 the user has streak 0, confidence -1 and version 2. Six minutes
  later the read path leaves that state alone and reports version 2, while the submission
  path lowers the confidence to -2 and bumps the version to 3 in memory, so that the
  submission carrying the reported version 2 is rejected.
\<close>

theorem submit_decay_ignores_streak:
  "user_state (fst example_s2) ''u1'' = Some example_row2
   \<and> us_streak example_row2 = 0
   \<and> decayDue 361000 example_row2
   \<and> confidence (loadCurrentState 361000 ''u1'' example_row2) = - 2
   \<and> stateVersion (loadCurrentState 361000 ''u1'' example_row2) = 3
   \<and> map_option stateVersion (fst (getUserState 361000 ''u1'' example_s2)) = Some 2
   \<and> map_option confidence (fst (getUserState 361000 ''u1'' example_s2)) = Some (- 1)
   \<and> fst (submitAnswer example_digest 361000 (example_wrong\<lparr>body_stateVersion := 2\<rparr>) example_s2)
       = Inl StateVersionMismatch"
  by code_simp

section \<open>The answer log\<close>

text \<open>
  C10. An answer submission that commits (it returns a response that is not a replayed
  one) appends exactly one row to the answer log, and the \<open>answer\<close> field of that row is
  the submitted answer text itself.
\<close>

theorem committed_submission_logs_answer:
  assumes ok: "fst (submitAnswer H now body (d, r)) = Inr resp"
    and fresh: "replayLookup now (body_answerIdempotencyKey body) r = None"
  shows "\<exists>row. answer_log (fst (snd (submitAnswer H now body (d, r)))) = answer_log d @ [row]
           \<and> log_answer row = body_answer body
           \<and> log_user_id row = body_userId body
           \<and> log_question_id row = body_questionId body"
proof -
  have tx: "fst (submitAnswerTx H now body d) = Inr resp"
    and db: "fst (snd (submitAnswer H now body (d, r))) = snd (submitAnswerTx H now body d)"
    using submitAnswer_commit_D [OF ok fresh] by simp_all
  from tx obtain row question total_score' score_delta' where
    "user_state d (body_userId body) = Some row"
    "body_stateVersion body = of_int (stateVersion (loadCurrentState now (body_userId body) row))"
    "questions d (body_questionId body) = Some question"
    "pg_integer (max 0 (js_add (totalScore (loadCurrentState now (body_userId body) row))
        (calculateScore (of_int (q_difficulty question))
          (of_int (if H (body_answer body) = q_correct_answer_hash question
                   then streak (loadCurrentState now (body_userId body) row) + 1 else 0))
          (H (body_answer body) = q_correct_answer_hash question)))) = Some total_score'"
    "pg_integer (calculateScore (of_int (q_difficulty question))
          (of_int (if H (body_answer body) = q_correct_answer_hash question
                   then streak (loadCurrentState now (body_userId body) row) + 1 else 0))
          (H (body_answer body) = q_correct_answer_hash question)) = Some score_delta'"
    by (rule submitAnswerTx_Inr_D)
  from submitAnswerTx_success [where H = H, OF this(1) refl this(2) this(3) refl refl refl refl refl this(4) this(5)]
  have "answer_log (snd (submitAnswerTx H now body d)) = answer_log d @
         [\<lparr>log_user_id = body_userId body,
           log_question_id = body_questionId body,
           log_difficulty = q_difficulty question,
           log_answer = body_answer body,
           log_correct = (H (body_answer body) = q_correct_answer_hash question),
           log_score_delta = score_delta',
           log_streak_at_answer = (if H (body_answer body) = q_correct_answer_hash question
                   then streak (loadCurrentState now (body_userId body) row) + 1 else 0),
           log_confidence_after = snd (computeNextDifficulty
              (currentDifficulty (loadCurrentState now (body_userId body) row))
              (H (body_answer body) = q_correct_answer_hash question)
              (confidence (loadCurrentState now (body_userId body) row))
              (if H (body_answer body) = q_correct_answer_hash question
                   then streak (loadCurrentState now (body_userId body) row) + 1 else 0)),
           log_answered_at = now\<rparr>]"
    by simp
  with db show ?thesis by simp
qed

theorem committed_submission_logs_answer_witness:
  "replayLookup 1000 (body_answerIdempotencyKey example_body) redis_empty = None
   \<and> (\<exists>resp. fst (submitAnswer example_digest 1000 example_body (example_db, redis_empty)) = Inr resp)
   \<and> map log_answer (answer_log (fst (snd (submitAnswer example_digest 1000 example_body
        (example_db, redis_empty))))) = [''A'']"
proof -
  have h1: "replayLookup 1000 (body_answerIdempotencyKey example_body) redis_empty = None"
    by code_simp
  have h2: "fst (submitAnswer example_digest 1000 example_body (example_db, redis_empty)) =
    Inr \<lparr>resp_correct = True, resp_newDifficulty = 1, resp_newConfidence = 1,
        resp_newStreak = 1, resp_scoreDelta = 11, resp_totalScore = 11,
        resp_stateVersion = 2, resp_leaderboardRankScore = Some 1,
        resp_leaderboardRankStreak = Some 1, resp_maxStreak = Some 1,
        resp_answeredAt = Some 1000\<rparr>"
    by code_simp
  have h3: "answer_log example_db = []" "body_answer example_body = ''A''"
    by code_simp+
  show ?thesis
    using committed_submission_logs_answer [OF h2 h1] h1 h2 h3 by auto
qed

section \<open>Idempotent replay\<close>

lemma afterCommit_idemp:
  assumes "body_answerIdempotencyKey body = Some key" and "key \<noteq> []"
  shows "idemp (afterCommit now body resp r) (IDEMP_PREFIX @ key) =
           Some (resp, now + IDEMP_TTL_SECONDS * 1000)"
  using assms
  by (simp add: afterCommit_def Let_def storeIdempotency_def redis_set_ex_def)

lemma replayLookup_stored:
  assumes "idemp r (IDEMP_PREFIX @ key) = Some (stored, expiry)" and "now < expiry"
    and "key \<noteq> []"
  shows "replayLookup now (Some key) r = Some stored"
  using assms by (simp add: replayLookup_def checkIdempotency_def redis_get_def)

lemma submitAnswer_replay:
  assumes valid: "body_userId body \<noteq> [] \<and> body_questionId body \<noteq> [] \<and> body_answer body \<noteq> []"
    and int: "isInteger (body_stateVersion body)"
    and admitted: "fst (rateLimit now (body_userId body) r) \<le> RATE_LIMIT_PER_MINUTE"
    and stored: "replayLookup now (body_answerIdempotencyKey body) r = Some stored"
  shows "submitAnswer H now body (d, r) = (Inr stored, d, snd (rateLimit now (body_userId body) r))"
proof -
  have "\<not> (body_userId body = [] \<or> body_questionId body = [] \<or> body_answer body = [])"
    using valid by simp
  from submitAnswer_admitted [OF this int, of H now d r] admitted stored
  show ?thesis by (simp add: Let_def)
qed

text \<open>
  C6, as the claim states it, fails. The first submission is the twentieth attempt of its
  minute; it commits and its response is stored under the token. The retry with the same
  token, one second later, is the twenty-first attempt: it is rejected as rate limited and
  the stored response is not returned.
\<close>

theorem idempotent_replay_limited_counterexample:
  "fst (submitAnswer example_digest 1000 example_body (example_db, example_busy)) = Inr example_response
   \<and> replayLookup 2000 (body_answerIdempotencyKey example_retry)
        (snd (snd (submitAnswer example_digest 1000 example_body (example_db, example_busy))))
        = Some example_response
   \<and> fst (submitAnswer example_digest 2000 example_retry
        (snd (submitAnswer example_digest 1000 example_body (example_db, example_busy))))
        = Inl RateLimitExceeded"
  by code_simp

text \<open>
  C6, amended. Let a first submission carrying a token commit and return a response. A
  second submission carrying the same token, whatever its answer text and other fields,
  made within the 24 hours for which the response is stored, leaves the durable store as
  the first left it and leaves the cached user state and the stored responses as they are.
  It returns the response of the first when it reaches the idempotency lookup, that is,
  when its required fields are present, its version is an integer and the rate limiter
  admits it.
\<close>

theorem idempotent_replay:
  assumes first: "submitAnswer H now1 body1 (d, r) = (Inr resp, d1, r1)"
    and fresh: "replayLookup now1 (body_answerIdempotencyKey body1) r = None"
    and key1: "body_answerIdempotencyKey body1 = Some key"
    and key2: "body_answerIdempotencyKey body2 = Some key"
    and key: "key \<noteq> []"
    and live: "now2 < now1 + 24 * 60 * 60 * 1000"
  shows "fst (snd (submitAnswer H now2 body2 (d1, r1))) = d1
       \<and> user_state_cache (snd (snd (submitAnswer H now2 body2 (d1, r1)))) = user_state_cache r1
       \<and> idemp (snd (snd (submitAnswer H now2 body2 (d1, r1)))) = idemp r1
       \<and> (body_userId body2 \<noteq> [] \<and> body_questionId body2 \<noteq> [] \<and> body_answer body2 \<noteq> []
            \<and> isInteger (body_stateVersion body2)
            \<and> fst (rateLimit now2 (body_userId body2) r1) \<le> RATE_LIMIT_PER_MINUTE
          \<longrightarrow> fst (submitAnswer H now2 body2 (d1, r1)) = Inr resp)"
proof -
  have ok: "fst (submitAnswer H now1 body1 (d, r)) = Inr resp"
    using first by simp
  have "r1 = afterCommit now1 body1 resp (snd (rateLimit now1 (body_userId body1) r))"
    using submitAnswer_commit_D(2) [OF ok fresh] first by simp
  then have "idemp r1 (IDEMP_PREFIX @ key) = Some (resp, now1 + IDEMP_TTL_SECONDS * 1000)"
    using afterCommit_idemp [OF key1 key] by simp
  moreover have "now2 < now1 + IDEMP_TTL_SECONDS * 1000"
    using live by (simp add: IDEMP_TTL_SECONDS_def)
  ultimately have look: "replayLookup now2 (body_answerIdempotencyKey body2) r1 = Some resp"
    using replayLookup_stored [OF _ _ key] key2 by simp
  have state: "snd (submitAnswer H now2 body2 (d1, r1)) = (d1, r1)
      \<or> snd (submitAnswer H now2 body2 (d1, r1)) = (d1, snd (rateLimit now2 (body_userId body2) r1))"
  proof (cases "body_userId body2 = [] \<or> body_questionId body2 = [] \<or> body_answer body2 = []")
    case True
    then show ?thesis by (simp add: submitAnswer_missing)
  next
    case valid: False
    show ?thesis
    proof (cases "isInteger (body_stateVersion body2)")
      case False
      with valid show ?thesis by (simp add: submitAnswer_invalid)
    next
      case True
      show ?thesis
        unfolding submitAnswer_admitted [OF valid True]
        using look by (simp add: Let_def)
    qed
  qed
  have replayed: "fst (submitAnswer H now2 body2 (d1, r1)) = Inr resp"
    if "body_userId body2 \<noteq> [] \<and> body_questionId body2 \<noteq> [] \<and> body_answer body2 \<noteq> []"
      "isInteger (body_stateVersion body2)"
      "fst (rateLimit now2 (body_userId body2) r1) \<le> RATE_LIMIT_PER_MINUTE"
    using submitAnswer_replay [OF that look] by simp
  from state have "fst (snd (submitAnswer H now2 body2 (d1, r1))) = d1"
    and "user_state_cache (snd (snd (submitAnswer H now2 body2 (d1, r1)))) = user_state_cache r1"
    and "idemp (snd (snd (submitAnswer H now2 body2 (d1, r1)))) = idemp r1"
    by (auto simp: rateLimit_fields)
  with replayed show ?thesis by blast
qed

theorem idempotent_replay_witness:
  "fst (submitAnswer example_digest 1000 example_body (example_db, redis_empty)) = Inr example_response
   \<and> replayLookup 1000 (body_answerIdempotencyKey example_body) redis_empty = None
   \<and> body_answerIdempotencyKey example_retry = body_answerIdempotencyKey example_body
   \<and> body_answer example_retry \<noteq> body_answer example_body
   \<and> fst (rateLimit 2000 (body_userId example_retry) (snd example_s1)) \<le> RATE_LIMIT_PER_MINUTE
   \<and> fst (submitAnswer example_digest 2000 example_retry example_s1) = Inr example_response
   \<and> fst (snd (submitAnswer example_digest 2000 example_retry example_s1)) = fst example_s1"
proof -
  have first: "submitAnswer example_digest 1000 example_body (example_db, redis_empty) =
      (Inr example_response, fst example_s1, snd example_s1)"
    unfolding example_s1_def
    by (rule prod_eqI) (code_simp, simp)
  have fresh: "replayLookup 1000 (body_answerIdempotencyKey example_body) redis_empty = None"
    by code_simp
  have key1: "body_answerIdempotencyKey example_body = Some ''k1''"
    and key2: "body_answerIdempotencyKey example_retry = Some ''k1''"
    and key: "''k1'' \<noteq> []"
    and valid: "body_userId example_retry \<noteq> [] \<and> body_questionId example_retry \<noteq> []
         \<and> body_answer example_retry \<noteq> []"
    and int: "isInteger (body_stateVersion example_retry)"
    and differ: "body_answer example_retry \<noteq> body_answer example_body"
    by code_simp+
  have live: "(2000 :: int) < 1000 + 24 * 60 * 60 * 1000"
    by simp
  have admitted: "fst (rateLimit 2000 (body_userId example_retry) (snd example_s1)) \<le> RATE_LIMIT_PER_MINUTE"
    by code_simp
  show ?thesis
    using idempotent_replay [OF first fresh key1 key2 key live]
      first fresh key1 key2 differ valid int admitted
    by simp
qed

section \<open>Replay and the rate limit\<close>

text \<open>
  C7, as the claim states it, fails. With twenty attempts counted in the current window
  and a live stored response for the token, the submission is rejected as rate limited:
  the stored response is not returned.
\<close>

theorem replay_rate_limited_counterexample:
  "replayLookup 2000 (body_answerIdempotencyKey example_body) example_limited = Some example_response
   \<and> fst (submitAnswer example_digest 2000 example_body (example_db, example_limited))
       = Inl RateLimitExceeded"
  by code_simp

text \<open>
  C7, amended. When a live stored response exists for the token of a submission, the
  outcome is decided before the durable store is read: missing fields, a non-integer
  version and the rate limit are reported as errors, in that order, and otherwise the
  stored response is returned. No unknown user, unknown question, version mismatch or
  store failure can occur, whatever the durable store holds, and the store is unchanged.
\<close>

theorem replay_short_circuits_store_errors:
  assumes token: "body_answerIdempotencyKey body = Some key" and key: "key \<noteq> []"
    and stored: "idemp r (IDEMP_PREFIX @ key) = Some (stored, expiry)"
    and live: "now < expiry"
  shows "fst (submitAnswer H now body (d, r)) =
           (if body_userId body = [] \<or> body_questionId body = [] \<or> body_answer body = []
            then Inl MissingRequiredFields
            else if \<not> isInteger (body_stateVersion body) then Inl InvalidStateVersion
            else if fst (rateLimit now (body_userId body) r) > RATE_LIMIT_PER_MINUTE
            then Inl RateLimitExceeded
            else Inr stored)
       \<and> fst (snd (submitAnswer H now body (d, r))) = d"
proof (cases "body_userId body = [] \<or> body_questionId body = [] \<or> body_answer body = []")
  case True
  then show ?thesis by (simp add: submitAnswer_missing)
next
  case valid: False
  show ?thesis
  proof (cases "isInteger (body_stateVersion body)")
    case False
    with valid show ?thesis by (simp add: submitAnswer_invalid)
  next
    case True
    have "replayLookup now (body_answerIdempotencyKey body) r = Some stored"
      using replayLookup_stored [OF stored live key] token by simp
    then show ?thesis
      using valid True unfolding submitAnswer_admitted [OF valid True]
      by (simp add: Let_def)
  qed
qed

theorem replay_short_circuits_store_errors_witness:
  "body_answerIdempotencyKey example_unknown = Some ''k1'' \<and> ''k1'' \<noteq> []
   \<and> idemp (snd example_s1) (IDEMP_PREFIX @ ''k1'') = Some (example_response, 86401000)
   \<and> (2000 :: int) < 86401000
   \<and> user_state (fst example_s1) (body_userId example_unknown) = None
   \<and> questions (fst example_s1) (body_questionId example_unknown) = None
   \<and> fst (submitAnswer example_digest 2000 example_unknown example_s1) = Inr example_response
   \<and> fst (snd (submitAnswer example_digest 2000 example_unknown example_s1)) = fst example_s1"
proof -
  have token: "body_answerIdempotencyKey example_unknown = Some ''k1''"
    and key: "''k1'' \<noteq> []"
    and stored: "idemp (snd example_s1) (IDEMP_PREFIX @ ''k1'') = Some (example_response, 86401000)"
    and live: "(2000 :: int) < 86401000"
    by code_simp+
  have rest: "user_state (fst example_s1) (body_userId example_unknown) = None"
    "questions (fst example_s1) (body_questionId example_unknown) = None"
    "\<not> (body_userId example_unknown = [] \<or> body_questionId example_unknown = []
        \<or> body_answer example_unknown = [])"
    "isInteger (body_stateVersion example_unknown)"
    "\<not> fst (rateLimit 2000 (body_userId example_unknown) (snd example_s1)) > RATE_LIMIT_PER_MINUTE"
    by code_simp+
  show ?thesis
    using replay_short_circuits_store_errors [OF token key stored live, of example_digest "fst example_s1"]
      token key stored live rest
    by simp
qed

section \<open>Leaderboard tops\<close>

lemma map_enumerate_snd:
  "map (\<lambda>p. f (snd p)) (enumerate n xs) = map f xs"
proof -
  have "map (\<lambda>p. f (snd p)) (enumerate n xs) = map f (map snd (enumerate n xs))"
    by (simp only: map_map comp_def)
  also have "\<dots> = map f xs"
    by (simp only: map_snd_enumerate)
  finally show ?thesis .
qed

lemma map_enumerate_fst:
  "map (\<lambda>p. g (fst p)) (enumerate n xs) = map g [n..<n + length xs]"
proof -
  have "map (\<lambda>p. g (fst p)) (enumerate n xs) = map g (map fst (enumerate n xs))"
    by (simp only: map_map comp_def)
  also have "\<dots> = map g [n..<n + length xs]"
    by (simp only: map_fst_enumerate)
  finally show ?thesis .
qed

text \<open>
  C9, as the claim states it, fails. After a committed submission the durable score table
  holds the row of user u1. With an empty cache tier (no cached projection and no sorted
  set) \<open>getTop\<close> returns the empty list, not the top list of the durable rows.
\<close>

theorem getTop_durable_counterexample:
  "redis_get 2000 (top_cache redis_empty) (cacheKeyForTop Score 10) = None
   \<and> leaderboard_score (fst example_s1) = [(''u1'', 11, 1000)]
   \<and> durableTop_spec Score 10 (fst example_s1) = [(''u1'', 11)]
   \<and> fst (getTop 2000 Score SCORE_SET_KEY 10 redis_empty) = []"
  by code_simp

text \<open>
  C9, amended. \<open>getTop\<close> returns the cached projection when it is fresh and leaves the
  cache as it is. Otherwise it reads the top list from the Redis sorted set of the
  dimension, highest score first and ranked from 1 in list order, with the value of the
  dimension taken from that set; it stores the list under the cache key, where it is
  served until 30 seconds later and no longer, and it changes nothing else in the cache.
\<close>

theorem getTop_cached_or_sorted_set:
  fixes limit :: rat and r :: redis and setKey :: set_key
  defines "safeLimit \<equiv> max 1 \<lfloor>limit\<rfloor>"
  defines "raw \<equiv> zRangeWithScores_REV (zset r setKey) 0 (safeLimit - 1)"
  shows "(\<forall>cached. redis_get now (top_cache r) (k, safeLimit) = Some cached \<longrightarrow>
            getTop now k setKey limit r = (cached, r))
       \<and> (redis_get now (top_cache r) (k, safeLimit) = None \<longrightarrow>
            map lb_userId (fst (getTop now k setKey limit r)) = map fst raw
          \<and> map lb_rank (fst (getTop now k setKey limit r)) = map (\<lambda>i. int i + 1) [0..<length raw]
          \<and> (k = Score \<longrightarrow> map lb_totalScore (fst (getTop now k setKey limit r)) = map snd raw)
          \<and> (k = Streak \<longrightarrow> map lb_maxStreak (fst (getTop now k setKey limit r)) = map snd raw)
          \<and> (\<forall>now'. redis_get now' (top_cache (snd (getTop now k setKey limit r))) (k, safeLimit) =
                 (if now' < now + 30 * 1000 then Some (fst (getTop now k setKey limit r)) else None))
          \<and> snd (getTop now k setKey limit r) =
               r\<lparr>top_cache := (top_cache r)((k, safeLimit) \<mapsto>
                    (fst (getTop now k setKey limit r), now + 30 * 1000))\<rparr>)"
proof -
  have hit: "getTop now k setKey limit r = (cached, r)"
    if "redis_get now (top_cache r) (k, safeLimit) = Some cached" for cached
    using that by (simp add: getTop_def Let_def cacheKeyForTop_def safeLimit_def)
  have miss: "getTop now k setKey limit r =
      (map (\<lambda>(index, (member, sc)).
              \<lparr>lb_userId = member,
               lb_totalScore = (case (if k = Score then Some sc
                                      else zScore (zset r SCORE_SET_KEY) member) of
                                  Some v \<Rightarrow> v | None \<Rightarrow> 0),
               lb_maxStreak = (case (if k = Streak then Some sc
                                     else zScore (zset r STREAK_SET_KEY) member) of
                                 Some v \<Rightarrow> v | None \<Rightarrow> 0),
               lb_rank = int index + 1\<rparr>) (enumerate 0 raw),
       r\<lparr>top_cache := (top_cache r)((k, safeLimit) \<mapsto>
            (map (\<lambda>(index, (member, sc)).
              \<lparr>lb_userId = member,
               lb_totalScore = (case (if k = Score then Some sc
                                      else zScore (zset r SCORE_SET_KEY) member) of
                                  Some v \<Rightarrow> v | None \<Rightarrow> 0),
               lb_maxStreak = (case (if k = Streak then Some sc
                                     else zScore (zset r STREAK_SET_KEY) member) of
                                 Some v \<Rightarrow> v | None \<Rightarrow> 0),
               lb_rank = int index + 1\<rparr>) (enumerate 0 raw), now + 30 * 1000))\<rparr>)"
    if "redis_get now (top_cache r) (k, safeLimit) = None"
    using that
    by (simp add: getTop_def Let_def cacheKeyForTop_def safeLimit_def raw_def redis_set_ex_def
        TOP_CACHE_TTL_SECONDS_def)
  have ids: "map lb_userId (fst (getTop now k setKey limit r)) = map fst raw"
    if "redis_get now (top_cache r) (k, safeLimit) = None"
    unfolding miss [OF that]
    using map_enumerate_snd [of fst 0 raw]
    by (simp add: case_prod_beta comp_def)
  have ranks: "map lb_rank (fst (getTop now k setKey limit r)) = map (\<lambda>i. int i + 1) [0..<length raw]"
    if "redis_get now (top_cache r) (k, safeLimit) = None"
    unfolding miss [OF that]
    using map_enumerate_fst [of "\<lambda>i. int i + 1" 0 raw]
    by (simp add: case_prod_beta comp_def)
  have scores: "map lb_totalScore (fst (getTop now k setKey limit r)) = map snd raw"
    if "redis_get now (top_cache r) (k, safeLimit) = None" "k = Score"
    unfolding miss [OF that(1)]
    using that(2) map_enumerate_snd [of snd 0 raw]
    by (simp add: case_prod_beta comp_def)
  have streaks: "map lb_maxStreak (fst (getTop now k setKey limit r)) = map snd raw"
    if "redis_get now (top_cache r) (k, safeLimit) = None" "k = Streak"
    unfolding miss [OF that(1)]
    using that(2) map_enumerate_snd [of snd 0 raw]
    by (simp add: case_prod_beta comp_def)
  have stored: "snd (getTop now k setKey limit r) =
               r\<lparr>top_cache := (top_cache r)((k, safeLimit) \<mapsto>
                    (fst (getTop now k setKey limit r), now + 30 * 1000))\<rparr>"
    if "redis_get now (top_cache r) (k, safeLimit) = None"
    unfolding miss [OF that] by simp
  have served: "redis_get now' (top_cache (snd (getTop now k setKey limit r))) (k, safeLimit) =
                 (if now' < now + 30 * 1000 then Some (fst (getTop now k setKey limit r)) else None)"
    if "redis_get now (top_cache r) (k, safeLimit) = None" for now'
    by (subst stored [OF that]) (simp add: redis_get_def)
  from hit ids ranks scores streaks stored served show ?thesis
    by blast
qed

theorem getTop_cached_or_sorted_set_witness:
  "redis_get 2000 (top_cache example_board) (Score, max 1 \<lfloor>2 :: rat\<rfloor>) = None
   \<and> fst (getTop 2000 Score SCORE_SET_KEY 2 example_board) = example_top
   \<and> redis_get 2500 (top_cache (snd (getTop 2000 Score SCORE_SET_KEY 2 example_board)))
         (Score, max 1 \<lfloor>2 :: rat\<rfloor>) = Some example_top
   \<and> redis_get 32000 (top_cache (snd (getTop 2000 Score SCORE_SET_KEY 2 example_board)))
         (Score, max 1 \<lfloor>2 :: rat\<rfloor>) = None
   \<and> getTop 2500 Score SCORE_SET_KEY 2 (snd (getTop 2000 Score SCORE_SET_KEY 2 example_board)) =
         (example_top, snd (getTop 2000 Score SCORE_SET_KEY 2 example_board))"
proof -
  have miss: "redis_get 2000 (top_cache example_board) (Score, max 1 \<lfloor>2 :: rat\<rfloor>) = None"
    by code_simp
  have top: "fst (getTop 2000 Score SCORE_SET_KEY 2 example_board) = example_top"
    by code_simp
  have "\<forall>now'. redis_get now' (top_cache (snd (getTop 2000 Score SCORE_SET_KEY 2 example_board)))
         (Score, max 1 \<lfloor>2 :: rat\<rfloor>) =
       (if now' < 2000 + 30 * 1000
        then Some (fst (getTop 2000 Score SCORE_SET_KEY 2 example_board)) else None)"
    using getTop_cached_or_sorted_set
      [where now = 2000 and r = example_board and k = Score and limit = 2 and setKey = SCORE_SET_KEY]
      miss
    by blast
  then have served: "redis_get now' (top_cache (snd (getTop 2000 Score SCORE_SET_KEY 2 example_board)))
         (Score, max 1 \<lfloor>2 :: rat\<rfloor>) = (if now' < 2000 + 30 * 1000 then Some example_top else None)"
    for now'
    by (simp only: top)
  have cached: "redis_get 2500 (top_cache (snd (getTop 2000 Score SCORE_SET_KEY 2 example_board)))
         (Score, max 1 \<lfloor>2 :: rat\<rfloor>) = Some example_top"
    using served [of 2500] by simp
  have hit: "getTop 2500 Score SCORE_SET_KEY 2 (snd (getTop 2000 Score SCORE_SET_KEY 2 example_board)) =
         (example_top, snd (getTop 2000 Score SCORE_SET_KEY 2 example_board))"
    using getTop_cached_or_sorted_set
      [where now = 2500 and r = "snd (getTop 2000 Score SCORE_SET_KEY 2 example_board)"
         and k = Score and limit = 2 and setKey = SCORE_SET_KEY]
      cached
    by blast
  have expired: "redis_get 32000 (top_cache (snd (getTop 2000 Score SCORE_SET_KEY 2 example_board)))
         (Score, max 1 \<lfloor>2 :: rat\<rfloor>) = None"
    using served [of 32000] by simp
  show ?thesis
    using miss top cached expired hit by blast
qed

section \<open>Bounds on every reachable state\<close>

lemma pg_integer_nonneg:
  "pg_integer x = Some t \<Longrightarrow> 0 \<le> x \<Longrightarrow> 0 \<le> t"
  by (auto simp: pg_integer_def split: if_splits)

lemma computeNextDifficulty_range:
  "1 \<le> fst (computeNextDifficulty d correct c s)"
  "fst (computeNextDifficulty d correct c s) \<le> 10"
  "- 2 \<le> snd (computeNextDifficulty d correct c s)"
  "snd (computeNextDifficulty d correct c s) \<le> 2"
  by (simp_all add: computeNextDifficulty_def clampDifficulty_def clampConfidence_def
      MIN_DIFFICULTY_def MAX_DIFFICULTY_def CONFIDENCE_UP_THRESHOLD_def Let_def)

lemma submitAnswerTx_ok:
  assumes ok: "fst (submitAnswerTx H now body d) = Inr resp"
    and inv: "db_ok d"
  shows "db_ok (snd (submitAnswerTx H now body d))"
    and "- 2 \<le> resp_newConfidence resp \<and> resp_newConfidence resp \<le> 2"
proof -
  from ok obtain row question total_score' score_delta' where
    h: "user_state d (body_userId body) = Some row"
    "body_stateVersion body = of_int (stateVersion (loadCurrentState now (body_userId body) row))"
    "questions d (body_questionId body) = Some question"
    "pg_integer (max 0 (js_add (totalScore (loadCurrentState now (body_userId body) row))
        (calculateScore (of_int (q_difficulty question))
          (of_int (if H (body_answer body) = q_correct_answer_hash question
                   then streak (loadCurrentState now (body_userId body) row) + 1 else 0))
          (H (body_answer body) = q_correct_answer_hash question)))) = Some total_score'"
    "pg_integer (calculateScore (of_int (q_difficulty question))
          (of_int (if H (body_answer body) = q_correct_answer_hash question
                   then streak (loadCurrentState now (body_userId body) row) + 1 else 0))
          (H (body_answer body) = q_correct_answer_hash question)) = Some score_delta'"
    by (rule submitAnswerTx_Inr_D)
  define nxt where "nxt = computeNextDifficulty
      (currentDifficulty (loadCurrentState now (body_userId body) row))
      (H (body_answer body) = q_correct_answer_hash question)
      (confidence (loadCurrentState now (body_userId body) row))
      (if H (body_answer body) = q_correct_answer_hash question
       then streak (loadCurrentState now (body_userId body) row) + 1 else 0)"
  note eq = submitAnswerTx_success [where H = H, OF h(1) refl h(2) h(3) refl refl refl refl nxt_def h(4) h(5)]
  have total: "0 \<le> total_score'"
    using pg_integer_nonneg [OF h(4)] by simp
  have range: "1 \<le> fst nxt" "fst nxt \<le> 10" "- 2 \<le> snd nxt" "snd nxt \<le> 2"
    unfolding nxt_def by (rule computeNextDifficulty_range)+
  have "row_ok row'" if "user_state (snd (submitAnswerTx H now body d)) uid = Some row'" for uid row'
  proof (cases "uid = body_userId body")
    case True
    with that have "row' = row\<lparr>us_streak := (if H (body_answer body) = q_correct_answer_hash question
                   then streak (loadCurrentState now (body_userId body) row) + 1 else 0),
               us_max_streak := max (maxStreak (loadCurrentState now (body_userId body) row))
                  (if H (body_answer body) = q_correct_answer_hash question
                   then streak (loadCurrentState now (body_userId body) row) + 1 else 0),
               us_total_score := total_score',
               us_current_difficulty := fst nxt,
               us_confidence := snd nxt,
               us_state_version := stateVersion (loadCurrentState now (body_userId body) row) + 1,
               us_last_question_id := Some (body_questionId body),
               us_last_answer_at := Some now\<rparr>"
      unfolding eq by simp
    then show ?thesis
      using total range by (simp add: row_ok_def)
  next
    case False
    with that have "user_state d uid = Some row'"
      unfolding eq by simp
    with inv show ?thesis
      by (simp add: db_ok_def)
  qed
  then show "db_ok (snd (submitAnswerTx H now body d))"
    by (simp add: db_ok_def)
  have "resp_newConfidence resp = snd nxt"
    using ok unfolding eq by auto
  with range show "- 2 \<le> resp_newConfidence resp \<and> resp_newConfidence resp \<le> 2"
    by simp
qed

lemma confidence_json_UserState:
  "confidence (json_UserState st) = confidence st"
  by (simp add: json_UserState_def)

lemma cache_ok_set:
  assumes "cache_ok r" and "- 2 \<le> confidence st \<and> confidence st \<le> 2"
  shows "cache_ok (r\<lparr>user_state_cache :=
           redis_set_ex now ttl key (json_UserState st) (user_state_cache r)\<rparr>)"
  using assms
  by (auto simp: cache_ok_def redis_set_ex_def confidence_json_UserState split: if_splits)

lemma cache_ok_cong:
  "user_state_cache r' = user_state_cache r \<Longrightarrow> cache_ok r \<Longrightarrow> cache_ok r'"
  by (simp add: cache_ok_def)

lemma afterCommit_user_state_cache:
  "user_state_cache (afterCommit now body resp r) =
     redis_set_ex now TTL_SECONDS (USER_STATE_PREFIX @ body_userId body)
       (json_UserState \<lparr>userId = body_userId body,
        currentDifficulty = resp_newDifficulty resp,
        streak = resp_newStreak resp,
        maxStreak = (case resp_maxStreak resp of Some m \<Rightarrow> m | None \<Rightarrow> resp_newStreak resp),
        totalScore = resp_totalScore resp,
        stateVersion = resp_stateVersion resp,
        confidence = resp_newConfidence resp,
        lastAnswerAt = map_option IsoString (resp_answeredAt resp),
        lastQuestionId = None\<rparr>)
       (user_state_cache r)"
  by (simp add: afterCommit_def Let_def updateUserState_def updateLeaderboardCaches_def
      storeIdempotency_def split: option.splits)

lemma afterCommit_ok:
  assumes "cache_ok r" and "- 2 \<le> resp_newConfidence resp \<and> resp_newConfidence resp \<le> 2"
  shows "cache_ok (afterCommit now body resp r)"
  using assms unfolding cache_ok_def afterCommit_user_state_cache redis_set_ex_def
  by (auto simp: confidence_json_UserState split: if_splits)

lemma rateLimit_ok:
  "cache_ok r \<Longrightarrow> cache_ok (snd (rateLimit now uid r))"
  by (rule cache_ok_cong [OF rateLimit_fields(2)])

lemma submitAnswer_state_cases:
  "snd (submitAnswer H now body (d, r)) = (d, r)
   \<or> snd (submitAnswer H now body (d, r)) = (d, snd (rateLimit now (body_userId body) r))
   \<or> (\<exists>resp. fst (submitAnswerTx H now body d) = Inr resp
        \<and> snd (submitAnswer H now body (d, r)) =
            (snd (submitAnswerTx H now body d),
             afterCommit now body resp (snd (rateLimit now (body_userId body) r))))"
proof (cases "body_userId body = [] \<or> body_questionId body = [] \<or> body_answer body = []")
  case True
  then show ?thesis by (simp add: submitAnswer_missing)
next
  case valid: False
  show ?thesis
  proof (cases "isInteger (body_stateVersion body)")
    case False
    with valid show ?thesis by (simp add: submitAnswer_invalid)
  next
    case True
    show ?thesis
      unfolding submitAnswer_admitted [OF valid True]
      by (simp add: Let_def split: option.splits sum.splits)
  qed
qed

lemma submitAnswer_ok:
  assumes "db_ok d" and "cache_ok r"
  shows "db_ok (fst (snd (submitAnswer H now body (d, r))))
       \<and> cache_ok (snd (snd (submitAnswer H now body (d, r))))"
  using submitAnswer_state_cases [of H now body d r] assms
  by (auto simp: rateLimit_ok submitAnswerTx_ok afterCommit_ok)

lemma update_decayed_ok:
  assumes "db_ok d" and "- 2 \<le> confidence st \<and> confidence st \<le> 2"
  shows "db_ok (update_decayed st d)"
  using assms
  by (auto simp: db_ok_def update_decayed_def row_ok_def split: option.splits if_splits)

lemma applyDecay_ok:
  assumes "db_ok d" and "cache_ok r" and "- 2 \<le> confidence st \<and> confidence st \<le> 2"
  shows "db_ok (fst (snd (applyDecay now st key (d, r))))
       \<and> cache_ok (snd (snd (applyDecay now st key (d, r))))"
proof (cases "\<exists>t. lastAnswerAt st = Some t \<and> now - Date_parse t > STREAK_DECAY_MS \<and> streak st > 0")
  case True
  then obtain t where t: "lastAnswerAt st = Some t" "now - Date_parse t > STREAK_DECAY_MS"
    "streak st > 0"
    by blast
  define decayed where "decayed = st\<lparr>streak := streak st div 2,
      confidence := max (confidence st - 1) (- 2), stateVersion := stateVersion st + 1\<rparr>"
  have c: "- 2 \<le> confidence decayed \<and> confidence decayed \<le> 2"
    using assms(3) by (simp add: decayed_def)
  have "applyDecay now st key (d, r) =
      (decayed, update_decayed decayed d,
       r\<lparr>user_state_cache :=
           redis_set_ex now TTL_SECONDS key (json_UserState decayed) (user_state_cache r)\<rparr>)"
    using t by (simp add: applyDecay_def Let_def decayed_def)
  then show ?thesis
    using update_decayed_ok [OF assms(1) c] cache_ok_set [OF assms(2) c] by simp
next
  case False
  then have "applyDecay now st key (d, r) = (st, d, r)"
    by (auto simp: applyDecay_def split: option.splits)
  with assms show ?thesis by simp
qed

lemma redis_get_SomeD:
  "redis_get now m k = Some v \<Longrightarrow> \<exists>e. m k = Some (v, e)"
  by (auto simp: redis_get_def split: option.splits if_splits)

lemma getUserState_ok:
  assumes d: "db_ok d" and r: "cache_ok r"
  shows "db_ok (fst (snd (getUserState now uid (d, r))))
       \<and> cache_ok (snd (snd (getUserState now uid (d, r))))"
proof (cases "redis_get now (user_state_cache r) (USER_STATE_PREFIX @ uid)")
  case (Some parsed)
  then have "- 2 \<le> confidence parsed \<and> confidence parsed \<le> 2"
    using r redis_get_SomeD [OF Some] by (auto simp: cache_ok_def)
  from applyDecay_ok [OF d r this, of now "USER_STATE_PREFIX @ uid"] Some
  show ?thesis
    by (simp add: getUserState_def Let_def case_prod_beta)
next
  case None
  show ?thesis
  proof (cases "user_state d uid")
    case no_row: None
    with None d r show ?thesis
      by (simp add: getUserState_def Let_def)
  next
    case (Some raw)
    have c: "- 2 \<le> confidence (hydrateState uid raw) \<and> confidence (hydrateState uid raw) \<le> 2"
      using d Some by (auto simp: db_ok_def row_ok_def hydrateState_def)
    from applyDecay_ok [OF d cache_ok_set [OF r c] c, of now "USER_STATE_PREFIX @ uid" now TTL_SECONDS
        "USER_STATE_PREFIX @ uid"] None Some
    show ?thesis
      by (simp add: getUserState_def Let_def case_prod_beta)
  qed
qed

lemma getTop_user_state_cache:
  "user_state_cache (snd (getTop now k setKey limit r)) = user_state_cache r"
  by (simp add: getTop_def Let_def split: option.splits)

lemma getTop_ok:
  "cache_ok r \<Longrightarrow> cache_ok (snd (getTop now k setKey limit r))"
  by (rule cache_ok_cong [OF getTop_user_state_cache])

lemma onboarded_ok:
  assumes "onboarded d"
  shows "db_ok d"
  unfolding db_ok_def
proof (intro allI impI)
  fix uid row
  assume "user_state d uid = Some row"
  with assms have "row = onboarding_row"
    unfolding onboarded_def by blast
  then show "row_ok row"
    by (simp add: row_ok_def onboarding_row_def)
qed

lemma redis_empty_ok:
  "cache_ok redis_empty"
  by (simp add: cache_ok_def redis_empty_def)

lemma reachable_ok:
  "reachable H s \<Longrightarrow> db_ok (fst s) \<and> cache_ok (snd s)"
proof (induction rule: reachable.induct)
  case (reachable_init d)
  then show ?case by (simp add: onboarded_ok redis_empty_ok)
next
  case (reachable_submit s now body)
  then show ?case
    using submitAnswer_ok [of "fst s" "snd s" H now body] by simp
next
  case (reachable_read s now uid)
  then show ?case
    using getUserState_ok [of "fst s" "snd s" now uid] by simp
next
  case (reachable_top s now k setKey limit)
  then show ?case by (simp add: getTop_ok)
qed

text \<open>
  C8. In every state that submissions, state reads with their decay and leaderboard reads
  reach from freshly onboarded users, the durable row of every user has a difficulty in
  [1,10], a confidence in [-2,2] and a total score that is not negative.
\<close>

theorem reachable_state_bounds:
  assumes "reachable H (d, r)" and "user_state d uid = Some row"
  shows "1 \<le> us_current_difficulty row \<and> us_current_difficulty row \<le> 10
       \<and> - 2 \<le> us_confidence row \<and> us_confidence row \<le> 2
       \<and> 0 \<le> us_total_score row"
  using reachable_ok [OF assms(1)] assms(2)
  by (simp add: db_ok_def row_ok_def)

theorem reachable_state_bounds_witness:
  "reachable example_digest (fst example_s2, snd example_s2)
   \<and> user_state (fst example_s2) ''u1'' = Some example_row2
   \<and> us_total_score example_row2 = 0
   \<and> 1 \<le> us_current_difficulty example_row2 \<and> us_current_difficulty example_row2 \<le> 10
   \<and> - 2 \<le> us_confidence example_row2 \<and> us_confidence example_row2 \<le> 2
   \<and> 0 \<le> us_total_score example_row2"
proof -
  have "onboarded example_db"
    by (simp add: onboarded_def example_db_def)
  then have "reachable example_digest (example_db, redis_empty)"
    by (rule reachable_init)
  then have "reachable example_digest example_s2"
    unfolding example_s2_def by (rule reachable_submit)
  then have reach: "reachable example_digest (fst example_s2, snd example_s2)"
    by simp
  have row: "user_state (fst example_s2) ''u1'' = Some example_row2"
    by code_simp
  have zero: "us_total_score example_row2 = 0"
    by code_simp
  show ?thesis
    using reachable_state_bounds [OF reach row] reach row zero by simp
qed

end
